theory Spec2Isabelle
  imports Complex_Main "HOL-Library.Word" "HOL-Library.Monad_Syntax"
begin

section \<open>Data model of \<^verbatim>\<open>dbc_classes.cpp\<close>\<close>

text \<open>
  Modelled from the spec: the declarations of \<^verbatim>\<open>dbc_classes.h\<close> and of the frame type
  are not among the sources. The types below have the fields that the functions of
  \<^verbatim>\<open>dbc_classes.cpp\<close> use, under the names used there, with the meaning of section 3 of
  the specification. The C++ type \<^verbatim>\<open>int\<close> is modelled by the integers: bit positions
  and lengths are far from the bounds of 32 bits.

  The value type of a signal, with the constructor names the source compares
  \<^verbatim>\<open>valType\<close> against.
\<close>

datatype DBC_SIG_VAL_TYPE = UNSIGNED_INT | SIGNED_INT | SP_FLOAT | DP_FLOAT | STRING

text \<open>One entry of a signal's value table (\<^verbatim>\<open>valList.at(x).value\<close>, \<^verbatim>\<open>.descript\<close>).\<close>

record DBC_VAL =
  val_value :: int
  descript :: string

text \<open>One attribute entry; only \<^verbatim>\<open>attrName\<close> is inspected by the lookups.\<close>

record 'v DBC_ATTRIBUTE_VALUE =
  attrName :: string
  attrValue :: 'v

text \<open>
  A frame: the payload bytes and the number of them that are valid. Only \<^verbatim>\<open>frame.len\<close>
  and \<^verbatim>\<open>frame.data\<close> are used by the decoders.
\<close>

record CANFrame =
  len :: int
  data :: "8 word list"

text \<open>
  Objects are referred to by address. A signal points to its owning message
  (\<^verbatim>\<open>parentMessage\<close>), a message to its multiplexor signal, or to nothing
  (\<^verbatim>\<open>multiplexorSignal\<close>, \<^verbatim>\<open>NULL\<close> is \<open>None\<close>). The type \<open>'d\<close> stands for
  the C++ type \<^verbatim>\<open>double\<close>.
\<close>

record ('d, 'v) DBC_SIGNAL =
  name :: string
  startBit :: int
  signalSize :: int
  intelByteOrder :: bool
  isMultiplexed :: bool
  multiplexValue :: int
  valType :: DBC_SIG_VAL_TYPE
  factor :: 'd
  bias :: 'd
  unitName :: string
  valList :: "DBC_VAL list"
  parentMessage :: nat
  sig_attributes :: "'v DBC_ATTRIBUTE_VALUE list"

record 'v DBC_MESSAGE =
  multiplexorSignal :: "nat option"
  msg_attributes :: "'v DBC_ATTRIBUTE_VALUE list"

record 'v DBC_NODE =
  node_attributes :: "'v DBC_ATTRIBUTE_VALUE list"

text \<open>
  The object memory the pointers are resolved in: every address holds an object, so that
  a pointer other than \<^verbatim>\<open>NULL\<close> is always valid.
\<close>

record ('d, 'v) dbc =
  sigs :: "nat \<Rightarrow> ('d, 'v) DBC_SIGNAL"
  msgs :: "nat \<Rightarrow> 'v DBC_MESSAGE"

text \<open>
  The arithmetic of \<^verbatim>\<open>double\<close> that the decoders use. The theorems below hold for every
  interpretation of these operations, so in particular for IEEE-754 arithmetic:
  \<^item> \<open>from_int\<close>: the conversion \<^verbatim>\<open>(double)result\<close>;
  \<^item> \<open>from_float_bits\<close>: \<^verbatim>\<open>*((float *)(&result))\<close>, the single-precision value whose bit
    pattern is the given 32 bits, promoted to \<^verbatim>\<open>double\<close>;
  \<^item> \<open>from_double_bits\<close>: \<^verbatim>\<open>*((double *)(&result))\<close>;
  \<^item> \<open>dmul\<close>, \<open>dadd\<close>: \<^verbatim>\<open>*\<close> and \<^verbatim>\<open>+\<close>;
  \<^item> \<open>to_int32\<close>, \<open>to_int64\<close>: the casts \<^verbatim>\<open>(int32_t)endResult\<close> and
    \<^verbatim>\<open>(int64_t)endResult\<close>;
  \<^item> \<open>number\<close>: \<^verbatim>\<open>QString::number(endResult)\<close>.
\<close>

record 'd arith =
  from_int :: "int \<Rightarrow> 'd"
  from_float_bits :: "32 word \<Rightarrow> 'd"
  from_double_bits :: "64 word \<Rightarrow> 'd"
  dmul :: "'d \<Rightarrow> 'd \<Rightarrow> 'd"
  dadd :: "'d \<Rightarrow> 'd \<Rightarrow> 'd"
  to_int32 :: "'d \<Rightarrow> int"
  to_int64 :: "'d \<Rightarrow> int"
  number :: "'d \<Rightarrow> string"

text \<open>
  \<^verbatim>\<open>Utility::processIntegerSignal(data, startBit, sigSize, intelByteOrder, isSigned)\<close>
  is declared in \<^verbatim>\<open>utility.h\<close> and returns an \<^verbatim>\<open>int64_t\<close>; the decoders take it
  as a parameter of this type.
\<close>

type_synonym extractor = "8 word list \<Rightarrow> int \<Rightarrow> int \<Rightarrow> bool \<Rightarrow> bool \<Rightarrow> 64 word"

text \<open>
  What a call of a decoder does: \<open>Returned ok w\<close> is the return of the boolean \<open>ok\<close>,
  where \<open>w\<close> is the value assigned to the output parameter (\<^verbatim>\<open>outValue\<close>,
  \<^verbatim>\<open>outString\<close>) during the call, \<open>None\<close> when no assignment to it was executed.
  \<open>Fault\<close> is a read of \<^verbatim>\<open>frame.data\<close> outside the \<^verbatim>\<open>frame.len\<close> valid bytes, or of
  a local variable that was never assigned. A call that does not return has no outcome
  at all (\<open>None\<close> at the level of the functions below).
\<close>

datatype 'a outcome = Fault | Returned bool "'a option"

section \<open>The decoders\<close>

text \<open>
  The lines that follow the call of the multiplexor's \<^verbatim>\<open>processAsInt\<close> in each of the
  three decoders (\<^verbatim>\<open>if (!...processAsInt(frame, val)) return false;\<close> and
  \<^verbatim>\<open>if (val != multiplexValue) return false;\<close>): \<open>r\<close> is what the call did, \<open>rest\<close> what
  the remainder of the decoder does. The local \<^verbatim>\<open>val\<close> is declared without a value and
  is assigned by the call only.
\<close>

definition after_multiplexor :: "int \<Rightarrow> int outcome \<Rightarrow> 'a outcome \<Rightarrow> 'a outcome" where
  "after_multiplexor mv r rest =
    (case r of
       Fault \<Rightarrow> Fault
     | Returned False w \<Rightarrow> Returned False None
     | Returned True None \<Rightarrow> Fault
     | Returned True (Some val) \<Rightarrow> if val \<noteq> mv then Returned False None else rest)"

text \<open>
  \<^verbatim>\<open>DBC_SIGNAL::processAsInt\<close>. The local \<^verbatim>\<open>result\<close> is an \<^verbatim>\<open>int32_t\<close>, so the
  64-bit value of the extractor is narrowed to 32 bits on assignment. \<open>rest\<close> is the part
  of the body after the multiplex block.
\<close>

partial_function (option) processAsInt ::
  "'d arith \<Rightarrow> extractor \<Rightarrow> ('d, 'v) dbc \<Rightarrow> CANFrame \<Rightarrow> ('d, 'v) DBC_SIGNAL \<Rightarrow> int outcome option"
where
  "processAsInt A pis st frame s =
    (let rest =
       (let isSigned = (valType s = SIGNED_INT) in
        if len frame * 8 < startBit s + signalSize s
        then Returned False None
        else
          let result = sint (ucast (pis (data frame) (startBit s) (signalSize s)
                                     (intelByteOrder s) isSigned) :: 32 word);
              endResult = dadd A (dmul A (from_int A result) (factor s)) (bias s);
              result = to_int32 A endResult
          in Returned True (Some result))
     in
     if valType s = STRING \<or> valType s = SP_FLOAT \<or> valType s = DP_FLOAT
     then Some (Returned False None)
     else if isMultiplexed s
     then (case multiplexorSignal (msgs st (parentMessage s)) of
             Some m \<Rightarrow>
               processAsInt A pis st frame (sigs st m) \<bind>
                 (\<lambda>r. Some (after_multiplexor (multiplexValue s) r rest))
           | None \<Rightarrow> Some (Returned False None))
     else Some rest)"

text \<open>
  The multiplex block as the other two decoders execute it: they call the multiplexor's
  \<^verbatim>\<open>processAsInt\<close> and continue with \<open>rest\<close> when the signal is in the frame.
\<close>

definition multiplex_block ::
  "'d arith \<Rightarrow> extractor \<Rightarrow> ('d, 'v) dbc \<Rightarrow> CANFrame \<Rightarrow> ('d, 'v) DBC_SIGNAL \<Rightarrow>
   'a outcome \<Rightarrow> 'a outcome option"
where
  "multiplex_block A pis st frame s rest =
    (if isMultiplexed s
     then (case multiplexorSignal (msgs st (parentMessage s)) of
             Some m \<Rightarrow>
               processAsInt A pis st frame (sigs st m) \<bind>
                 (\<lambda>r. Some (after_multiplexor (multiplexValue s) r rest))
           | None \<Rightarrow> Some (Returned False None))
     else Some rest)"

text \<open>Integer division of C++, which truncates towards zero.\<close>

definition c_div :: "int \<Rightarrow> int \<Rightarrow> int" where
  "c_div a b = sgn a * sgn b * (\<bar>a\<bar> div \<bar>b\<bar>)"

text \<open>
  \<^verbatim>\<open>frame.data[i]\<close>: a byte of the frame when \<open>i\<close> is one of its \<^verbatim>\<open>frame.len\<close> valid
  positions, nothing otherwise.
\<close>

definition byte_at :: "CANFrame \<Rightarrow> int \<Rightarrow> 8 word option" where
  "byte_at frame i =
    (if 0 \<le> i \<and> i < len frame \<and> nat i < length (data frame)
     then Some (data frame ! nat i) else None)"

text \<open>\<^verbatim>\<open>buildString.append(frame.data[startByte + x])\<close> for \<open>x\<close> from 0 to \<open>bytes - 1\<close>.\<close>

definition buildString :: "CANFrame \<Rightarrow> int \<Rightarrow> int \<Rightarrow> string option" where
  "buildString frame startByte bytes =
    map_option (map (\<lambda>b. char_of (unat b)))
      (those (map (\<lambda>x. byte_at frame (startByte + x)) [0..bytes - 1]))"

text \<open>
  The loop over the value table: the description of the first entry whose value is
  \<open>result\<close>, if there is one (\<^verbatim>\<open>foundVal\<close>).
\<close>

fun lookupVal :: "DBC_VAL list \<Rightarrow> int \<Rightarrow> string option" where
  "lookupVal [] result = None"
| "lookupVal (v # vs) result =
    (if val_value v = result then Some (descript v) else lookupVal vs result)"

text \<open>Lines 97 to 121 of \<^verbatim>\<open>processAsText\<close>: the text built from the two locals.\<close>

definition outputString ::
  "'d arith \<Rightarrow> ('d, 'v) DBC_SIGNAL \<Rightarrow> int \<Rightarrow> 'd \<Rightarrow> string" where
  "outputString A s result endResult =
    name s @ '': '' @
    (if length (valList s) > 0
     then (case lookupVal (valList s) result of
             Some d \<Rightarrow> d
           | None \<Rightarrow> number A endResult @ unitName s)
     else number A endResult @ unitName s)"

text \<open>
  \<^verbatim>\<open>DBC_SIGNAL::processAsText\<close>. The local \<^verbatim>\<open>result\<close> is an \<^verbatim>\<open>int64_t\<close>. The casts
  \<^verbatim>\<open>*((float *)(&result))\<close> and \<^verbatim>\<open>*((double *)(&result))\<close> read the low 32 bits and all
  64 bits of it (little-endian host).
\<close>

definition processAsText ::
  "'d arith \<Rightarrow> extractor \<Rightarrow> ('d, 'v) dbc \<Rightarrow> CANFrame \<Rightarrow> ('d, 'v) DBC_SIGNAL \<Rightarrow>
   string outcome option"
where
  "processAsText A pis st frame s =
    (if valType s = STRING
     then
       (let startByte = c_div (startBit s) 8;
            bytes = c_div (signalSize s) 8
        in case buildString frame startByte bytes of
             None \<Rightarrow> Some Fault
           | Some str \<Rightarrow> Some (Returned True (Some str)))
     else
       multiplex_block A pis st frame s
         (let isSigned = (valType s = SIGNED_INT) in
          if valType s = SIGNED_INT \<or> valType s = UNSIGNED_INT
          then
            let result = pis (data frame) (startBit s) (signalSize s) (intelByteOrder s) isSigned;
                endResult = dadd A (dmul A (from_int A (sint result)) (factor s)) (bias s);
                result = to_int64 A endResult
            in Returned True (Some (outputString A s result endResult))
          else if valType s = SP_FLOAT
          then
            let result = pis (data frame) (startBit s) 32 False False;
                endResult = dadd A (dmul A (from_float_bits A (ucast result)) (factor s)) (bias s)
            in Returned True (Some (outputString A s (sint result) endResult))
          else
            if len frame < 8
            then Returned False None
            else
              let result = pis (data frame) 0 64 False False;
                  endResult = dadd A (dmul A (from_double_bits A result) (factor s)) (bias s)
              in Returned True (Some (outputString A s (sint result) endResult))))"

text \<open>\<^verbatim>\<open>DBC_SIGNAL::processAsDouble\<close>.\<close>

definition processAsDouble ::
  "'d arith \<Rightarrow> extractor \<Rightarrow> ('d, 'v) dbc \<Rightarrow> CANFrame \<Rightarrow> ('d, 'v) DBC_SIGNAL \<Rightarrow>
   'd outcome option"
where
  "processAsDouble A pis st frame s =
    (if valType s = STRING
     then Some (Returned False None)
     else
       multiplex_block A pis st frame s
         (let isSigned = (valType s = SIGNED_INT) in
          if valType s = SIGNED_INT \<or> valType s = UNSIGNED_INT
          then
            if len frame * 8 < startBit s + signalSize s
            then Returned False None
            else
              let result = pis (data frame) (startBit s) (signalSize s) (intelByteOrder s) isSigned;
                  endResult = dadd A (dmul A (from_int A (sint result)) (factor s)) (bias s);
                  result = to_int64 A endResult
              in Returned True (Some endResult)
          else if valType s = SP_FLOAT
          then
            if len frame * 8 < startBit s + 32
            then Returned False None
            else
              let result = pis (data frame) (startBit s) 32 False False;
                  endResult = dadd A (dmul A (from_float_bits A (ucast result)) (factor s)) (bias s)
              in Returned True (Some endResult)
          else
            if len frame < 8
            then Returned False None
            else
              let result = pis (data frame) 0 64 False False;
                  endResult = dadd A (dmul A (from_double_bits A result) (factor s)) (bias s)
              in Returned True (Some endResult)))"

section \<open>The accesses of a decode to the frame\<close>

text \<open>
  What a call does with the bytes of the frame, in the order of execution: a call of
  \<^verbatim>\<open>Utility::processIntegerSignal\<close> on \<^verbatim>\<open>frame.data\<close> with the start bit and the size it
  is handed (\<open>Extraction\<close>), and a read of \<^verbatim>\<open>frame.data[i]\<close> (\<open>ByteRead\<close>).
\<close>

datatype access = Extraction int int | ByteRead int


text \<open>
  The multiplexor's \<^verbatim>\<open>processAsInt\<close> returned \<^verbatim>\<open>true\<close> with the selector \<open>mv\<close>, so that
  the decoder goes on behind the multiplex block.
\<close>

definition selected :: "int \<Rightarrow> int outcome \<Rightarrow> bool" where
  "selected mv r = (r = Returned True (Some mv))"

text \<open>
  The accesses of a call of \<^verbatim>\<open>processAsInt\<close>: those of the call of the multiplexor's
  \<^verbatim>\<open>processAsInt\<close> in the multiplex block, then the one call of the extractor at line
  157, which is reached when the signal is in the frame and the test of line 152 passes.
\<close>

partial_function (option) processAsInt_accesses ::
  "'d arith \<Rightarrow> extractor \<Rightarrow> ('d, 'v) dbc \<Rightarrow> CANFrame \<Rightarrow> ('d, 'v) DBC_SIGNAL \<Rightarrow> access list option"
where
  "processAsInt_accesses A pis st frame s =
    (let rest =
       (if len frame * 8 < startBit s + signalSize s then []
        else [Extraction (startBit s) (signalSize s)])
     in
     if valType s = STRING \<or> valType s = SP_FLOAT \<or> valType s = DP_FLOAT
     then Some []
     else if isMultiplexed s
     then (case multiplexorSignal (msgs st (parentMessage s)) of
             Some m \<Rightarrow>
               processAsInt_accesses A pis st frame (sigs st m) \<bind>
                 (\<lambda>t. processAsInt A pis st frame (sigs st m) \<bind>
                   (\<lambda>r. Some (t @ (if selected (multiplexValue s) r then rest else []))))
           | None \<Rightarrow> Some [])
     else Some rest)"

text \<open>The accesses of the multiplex block, followed by those of the rest of a decoder.\<close>

definition multiplex_block_accesses ::
  "'d arith \<Rightarrow> extractor \<Rightarrow> ('d, 'v) dbc \<Rightarrow> CANFrame \<Rightarrow> ('d, 'v) DBC_SIGNAL \<Rightarrow>
   access list \<Rightarrow> access list option"
where
  "multiplex_block_accesses A pis st frame s rest =
    (if isMultiplexed s
     then (case multiplexorSignal (msgs st (parentMessage s)) of
             Some m \<Rightarrow>
               processAsInt_accesses A pis st frame (sigs st m) \<bind>
                 (\<lambda>t. processAsInt A pis st frame (sigs st m) \<bind>
                   (\<lambda>r. Some (t @ (if selected (multiplexValue s) r then rest else []))))
           | None \<Rightarrow> Some [])
     else Some rest)"



section \<open>Attribute lookups\<close>

text \<open>
  \<^verbatim>\<open>attrName.compare(name, Qt::CaseInsensitive) == 0\<close>: the two names are equal up to
  the case of their letters (the letters A to Z of the 8-bit characters used here).
\<close>

definition toLower :: "char \<Rightarrow> char" where
  "toLower c =
    (if (65::nat) \<le> of_char c \<and> of_char c \<le> (90::nat)
     then char_of (of_char c + (32::nat)) else c)"

definition compareCI :: "string \<Rightarrow> string \<Rightarrow> bool" where
  "compareCI a b = (map toLower a = map toLower b)"

text \<open>
  The loop of \<^verbatim>\<open>DBC_SIGNAL::findAttrValByName\<close> from index \<open>i\<close> on, and the function
  with its test for the empty list. A returned pointer \<^verbatim>\<open>&attributes[i]\<close> is the entry
  at \<open>i\<close>, \<^verbatim>\<open>NULL\<close> is \<open>None\<close>.
\<close>

function DBC_SIGNAL_findLoop ::
  "'v DBC_ATTRIBUTE_VALUE list \<Rightarrow> string \<Rightarrow> nat \<Rightarrow> 'v DBC_ATTRIBUTE_VALUE option" where
  "DBC_SIGNAL_findLoop attrs nm i =
    (if i < length attrs
     then (if compareCI (attrName (attrs ! i)) nm then Some (attrs ! i)
           else DBC_SIGNAL_findLoop attrs nm (i + 1))
     else None)"
  by pat_completeness auto
termination
  by (relation "measure (\<lambda>(attrs, nm, i). length attrs - i)") auto

definition DBC_SIGNAL_findAttrValByName ::
  "('d, 'v) DBC_SIGNAL \<Rightarrow> string \<Rightarrow> 'v DBC_ATTRIBUTE_VALUE option" where
  "DBC_SIGNAL_findAttrValByName s nm =
    (if length (sig_attributes s) = 0 then None
     else DBC_SIGNAL_findLoop (sig_attributes s) nm 0)"

definition DBC_SIGNAL_findAttrValByIdx ::
  "('d, 'v) DBC_SIGNAL \<Rightarrow> int \<Rightarrow> 'v DBC_ATTRIBUTE_VALUE option" where
  "DBC_SIGNAL_findAttrValByIdx s idx =
    (if idx < 0 then None
     else if idx \<ge> int (length (sig_attributes s)) then None
     else Some (sig_attributes s ! nat idx))"

text \<open>\<^verbatim>\<open>DBC_MESSAGE::findAttrValByName\<close> and \<^verbatim>\<open>DBC_MESSAGE::findAttrValByIdx\<close>.\<close>

function DBC_MESSAGE_findLoop ::
  "'v DBC_ATTRIBUTE_VALUE list \<Rightarrow> string \<Rightarrow> nat \<Rightarrow> 'v DBC_ATTRIBUTE_VALUE option" where
  "DBC_MESSAGE_findLoop attrs nm i =
    (if i < length attrs
     then (if compareCI (attrName (attrs ! i)) nm then Some (attrs ! i)
           else DBC_MESSAGE_findLoop attrs nm (i + 1))
     else None)"
  by pat_completeness auto
termination
  by (relation "measure (\<lambda>(attrs, nm, i). length attrs - i)") auto

definition DBC_MESSAGE_findAttrValByName ::
  "'v DBC_MESSAGE \<Rightarrow> string \<Rightarrow> 'v DBC_ATTRIBUTE_VALUE option" where
  "DBC_MESSAGE_findAttrValByName m nm =
    (if length (msg_attributes m) = 0 then None
     else DBC_MESSAGE_findLoop (msg_attributes m) nm 0)"

definition DBC_MESSAGE_findAttrValByIdx ::
  "'v DBC_MESSAGE \<Rightarrow> int \<Rightarrow> 'v DBC_ATTRIBUTE_VALUE option" where
  "DBC_MESSAGE_findAttrValByIdx m idx =
    (if idx < 0 then None
     else if idx \<ge> int (length (msg_attributes m)) then None
     else Some (msg_attributes m ! nat idx))"

text \<open>\<^verbatim>\<open>DBC_NODE::findAttrValByName\<close> and \<^verbatim>\<open>DBC_NODE::findAttrValByIdx\<close>.\<close>

function DBC_NODE_findLoop ::
  "'v DBC_ATTRIBUTE_VALUE list \<Rightarrow> string \<Rightarrow> nat \<Rightarrow> 'v DBC_ATTRIBUTE_VALUE option" where
  "DBC_NODE_findLoop attrs nm i =
    (if i < length attrs
     then (if compareCI (attrName (attrs ! i)) nm then Some (attrs ! i)
           else DBC_NODE_findLoop attrs nm (i + 1))
     else None)"
  by pat_completeness auto
termination
  by (relation "measure (\<lambda>(attrs, nm, i). length attrs - i)") auto

definition DBC_NODE_findAttrValByName ::
  "'v DBC_NODE \<Rightarrow> string \<Rightarrow> 'v DBC_ATTRIBUTE_VALUE option" where
  "DBC_NODE_findAttrValByName n nm =
    (if length (node_attributes n) = 0 then None
     else DBC_NODE_findLoop (node_attributes n) nm 0)"

definition DBC_NODE_findAttrValByIdx ::
  "'v DBC_NODE \<Rightarrow> int \<Rightarrow> 'v DBC_ATTRIBUTE_VALUE option" where
  "DBC_NODE_findAttrValByIdx n idx =
    (if idx < 0 then None
     else if idx \<ge> int (length (node_attributes n)) then None
     else Some (node_attributes n ! nat idx))"

text \<open>
  The lookup as the specification words it, once for all entity kinds: the first entry in
  list order whose name equals the argument case-insensitively, and the entry at an index
  within the bounds.
\<close>

definition findByName ::
  "'v DBC_ATTRIBUTE_VALUE list \<Rightarrow> string \<Rightarrow> 'v DBC_ATTRIBUTE_VALUE option" where
  "findByName attrs nm = find (\<lambda>a. compareCI (attrName a) nm) attrs"

definition findByIndex ::
  "'v DBC_ATTRIBUTE_VALUE list \<Rightarrow> int \<Rightarrow> 'v DBC_ATTRIBUTE_VALUE option" where
  "findByIndex attrs i = (if 0 \<le> i \<and> i < int (length attrs) then Some (attrs ! nat i) else None)"

section \<open>An interpretation for evaluating the decoders\<close>

text \<open>
  Modelled from the spec: \<^verbatim>\<open>Utility::processIntegerSignal\<close> (\<^verbatim>\<open>utility.h\<close> and its
  implementation are not among the sources), after section 4.1 of the specification.
  A bit of the byte sequence at a global index: bit \<open>n\<close> of byte \<open>b\<close> has index \<open>b*8+n\<close>.
  The extraction never reads outside the byte sequence: a position outside of it is not
  read and counts as a 0 bit.
\<close>

definition frame_bit :: "8 word list \<Rightarrow> int \<Rightarrow> bool" where
  "frame_bit bytes b =
    (0 \<le> b \<and> nat (b div 8) < length bytes \<and> bit (bytes ! nat (b div 8)) (nat (b mod 8)))"

text \<open>
  Modelled from the spec: the global indices a signal consumes, the most significant
  first. INTEL: the indices \<open>startBit .. startBit+length-1\<close>, of which \<open>startBit\<close> is the
  least significant. MOTOROLA: from \<open>startBit\<close> downwards within a byte, continuing at bit
  7 of the next byte; the first one is the most significant.
\<close>

fun motorola_positions :: "int \<Rightarrow> nat \<Rightarrow> int list" where
  "motorola_positions b 0 = []"
| "motorola_positions b (Suc n) =
    b # motorola_positions (if b mod 8 = 0 then b + 15 else b - 1) n"

definition intel_positions :: "int \<Rightarrow> nat \<Rightarrow> int list" where
  "intel_positions b n = rev (map (\<lambda>k. b + int k) [0..<n])"

text \<open>
  Modelled from the spec: the integer that the bits at these positions make up. With
  \<open>signed\<close>, bit \<open>length-1\<close> of the magnitude is the sign bit, extended with ones.
\<close>

definition extracted_value :: "8 word list \<Rightarrow> int \<Rightarrow> int \<Rightarrow> bool \<Rightarrow> bool \<Rightarrow> int" where
  "extracted_value bytes start n intel sgnd =
    (let bs = map (frame_bit bytes)
                (if intel then intel_positions start (nat n)
                 else motorola_positions start (nat n));
         magnitude = foldl (\<lambda>acc b. 2 * acc + (if b then 1 else 0)) (0::int) bs
     in if sgnd \<and> 2 ^ (nat n - 1) \<le> magnitude
        then magnitude - 2 ^ nat n else magnitude)"

text \<open>
  Modelled from the spec: \<open>extractInteger(bytes, startBit, length, order, signed)\<close>, which
  fails unless \<open>length\<close> is in 1..64 and \<open>startBit+length \<le> bytes.length*8\<close>.
\<close>

definition extractInteger ::
  "8 word list \<Rightarrow> int \<Rightarrow> int \<Rightarrow> bool \<Rightarrow> bool \<Rightarrow> int option" where
  "extractInteger bytes start n intel sgnd =
    (if n < 1 \<or> 64 < n \<or> int (length bytes) * 8 < start + n then None
     else Some (extracted_value bytes start n intel sgnd))"

text \<open>
  Modelled from the spec: the extractor under the C++ signature of
  \<^verbatim>\<open>Utility::processIntegerSignal\<close>. The C++ function returns an \<^verbatim>\<open>int64_t\<close> and has no
  way to report a failure, so it is the bit walk of section 4.1 itself, without the test
  of the preconditions: it yields the 64-bit value of the bits that lie in the byte
  sequence, whatever range it is asked for.
\<close>

definition processIntegerSignal :: extractor where
  "processIntegerSignal bytes start n intel sgnd =
    word_of_int (extracted_value bytes start n intel sgnd)"

text \<open>
  An interpretation of \<^verbatim>\<open>double\<close> by exact rationals: \<open>Finite q\<close> is the number \<open>q\<close>,
  \<open>NotFinite\<close> an infinity or a NaN. Every finite IEEE-754 value is a rational, and the
  operations agree with IEEE-754 wherever the exact result is representable, as it is at
  the inputs evaluated below (small integers).
\<close>

datatype xdouble = Finite rat | NotFinite

text \<open>
  The value of an IEEE-754 bit pattern with \<open>ew\<close> exponent bits and \<open>mw\<close> fraction bits,
  the pattern given as a non-negative integer.
\<close>

definition pow2 :: "int \<Rightarrow> rat" where
  "pow2 k = (if 0 \<le> k then 2 ^ nat k else 1 / 2 ^ nat (- k))"

definition ieee_value :: "nat \<Rightarrow> nat \<Rightarrow> int \<Rightarrow> xdouble" where
  "ieee_value ew mw w =
    (let frac = w mod 2 ^ mw;
         ex = (w div 2 ^ mw) mod 2 ^ ew;
         negative = ((w div 2 ^ (mw + ew)) mod 2 = 1);
         bias = 2 ^ (ew - 1) - 1;
         magnitude =
           (if ex = 0 then of_int frac * pow2 (1 - bias - int mw)
            else of_int (2 ^ mw + frac) * pow2 (ex - bias - int mw))
     in if ex = 2 ^ ew - 1 then NotFinite
        else Finite (if negative then - magnitude else magnitude))"

fun xmul :: "xdouble \<Rightarrow> xdouble \<Rightarrow> xdouble" where
  "xmul (Finite a) (Finite b) = Finite (a * b)"
| "xmul _ _ = NotFinite"

fun xadd :: "xdouble \<Rightarrow> xdouble \<Rightarrow> xdouble" where
  "xadd (Finite a) (Finite b) = Finite (a + b)"
| "xadd _ _ = NotFinite"

text \<open>The casts to an integer type truncate towards zero.\<close>

fun xtrunc :: "xdouble \<Rightarrow> int" where
  "xtrunc (Finite q) = (if 0 \<le> q then \<lfloor>q\<rfloor> else - \<lfloor>- q\<rfloor>)"
| "xtrunc NotFinite = 0"

text \<open>
  The decimal digits of a natural number, and the text of a number: an integer of
  magnitude below \<open>10^6\<close> is printed by \<^verbatim>\<open>QString::number\<close> as its decimal digits, and
  only such numbers are printed below (\<open>?\<close> stands for the rest).
\<close>

fun digits :: "nat \<Rightarrow> string" where
  "digits n =
    (if n < 10 then [char_of (48 + n)]
     else digits (n div 10) @ [char_of (48 + n mod 10)])"

fun xnumber :: "xdouble \<Rightarrow> string" where
  "xnumber (Finite q) =
    (if of_int \<lfloor>q\<rfloor> = q \<and> \<bar>q\<bar> < 1000000
     then (if q < 0 then ''-'' else []) @ digits (nat \<bar>\<lfloor>q\<rfloor>\<bar>)
     else ''?'')"
| "xnumber NotFinite = ''?''"

definition exact_arith :: "xdouble arith" where
  "exact_arith =
    \<lparr> from_int = (\<lambda>i. Finite (of_int i)),
      from_float_bits = (\<lambda>w. ieee_value 8 23 (uint w)),
      from_double_bits = (\<lambda>w. ieee_value 11 52 (uint w)),
      dmul = xmul,
      dadd = xadd,
      to_int32 = xtrunc,
      to_int64 = xtrunc,
      number = xnumber \<rparr>"

declare processAsInt.simps [code]

declare processAsInt_accesses.simps [code]

section \<open>Notions used in the statements\<close>

text \<open>
  A call that returned without a fault, having assigned its output parameter exactly
  when it returned \<^verbatim>\<open>true\<close>.
\<close>

definition proper :: "'a outcome \<Rightarrow> bool" where
  "proper r = (case r of Fault \<Rightarrow> False | Returned ok w \<Rightarrow> (ok = (w \<noteq> None)))"

text \<open>
  The signal is in the frame: it is not multiplexed, or its message has a multiplexor
  whose \<^verbatim>\<open>processAsInt\<close> on the same frame succeeds with the signal's
  \<^verbatim>\<open>multiplexValue\<close>.
\<close>

definition multiplex_match ::
  "'d arith \<Rightarrow> extractor \<Rightarrow> ('d, 'v) dbc \<Rightarrow> CANFrame \<Rightarrow> ('d, 'v) DBC_SIGNAL \<Rightarrow> bool" where
  "multiplex_match A pis st frame s =
    (if isMultiplexed s
     then (case multiplexorSignal (msgs st (parentMessage s)) of
             None \<Rightarrow> False
           | Some m \<Rightarrow>
               processAsInt A pis st frame (sigs st m) =
                 Some (Returned True (Some (multiplexValue s))))
     else True)"

text \<open>The call of the multiplexor's \<^verbatim>\<open>processAsInt\<close>, where there is one, returns.\<close>

definition multiplexor_returns ::
  "'d arith \<Rightarrow> extractor \<Rightarrow> ('d, 'v) dbc \<Rightarrow> CANFrame \<Rightarrow> ('d, 'v) DBC_SIGNAL \<Rightarrow> bool" where
  "multiplexor_returns A pis st frame s =
    (if isMultiplexed s
     then (case multiplexorSignal (msgs st (parentMessage s)) of
             None \<Rightarrow> True
           | Some m \<Rightarrow> processAsInt A pis st frame (sigs st m) \<noteq> None)
     else True)"

text \<open>
  The chain of multiplexor links that \<^verbatim>\<open>processAsInt\<close> follows from a signal ends
  within \<open>n\<close> links: at a signal of a type \<^verbatim>\<open>processAsInt\<close> rejects, at a signal that
  is not multiplexed, or at a message without multiplexor.
\<close>

fun int_chain_ends :: "('d, 'v) dbc \<Rightarrow> nat \<Rightarrow> ('d, 'v) DBC_SIGNAL \<Rightarrow> bool" where
  "int_chain_ends st 0 s =
    (valType s = STRING \<or> valType s = SP_FLOAT \<or> valType s = DP_FLOAT \<or>
     \<not> isMultiplexed s \<or> multiplexorSignal (msgs st (parentMessage s)) = None)"
| "int_chain_ends st (Suc n) s =
    (valType s = STRING \<or> valType s = SP_FLOAT \<or> valType s = DP_FLOAT \<or>
     \<not> isMultiplexed s \<or>
     (case multiplexorSignal (msgs st (parentMessage s)) of
        None \<Rightarrow> True
      | Some m \<Rightarrow> int_chain_ends st n (sigs st m)))"

text \<open>The same for a decode of the signal by any of the three entry points.\<close>

definition chain_ends :: "('d, 'v) dbc \<Rightarrow> nat \<Rightarrow> ('d, 'v) DBC_SIGNAL \<Rightarrow> bool" where
  "chain_ends st n s =
    (\<not> isMultiplexed s \<or>
     (case multiplexorSignal (msgs st (parentMessage s)) of
        None \<Rightarrow> True
      | Some m \<Rightarrow> int_chain_ends st n (sigs st m)))"

text \<open>
  The scaled values of the floating-point signals. \<open>whole_frame_double\<close>: 64 bits from
  bit 0, as a double, times factor plus bias. \<open>single_float_value\<close>: 32 bits from the
  signal's start bit, extracted with the byte-order argument \<^verbatim>\<open>false\<close>, as a single.
  \<open>single_float_configured\<close>: the same with the signal's own byte order, as the
  specification describes the single-precision decode.
\<close>

definition whole_frame_double ::
  "'d arith \<Rightarrow> extractor \<Rightarrow> CANFrame \<Rightarrow> ('d, 'v) DBC_SIGNAL \<Rightarrow> 'd" where
  "whole_frame_double A pis frame s =
    dadd A (dmul A (from_double_bits A (pis (data frame) 0 64 False False)) (factor s)) (bias s)"

definition single_float_value ::
  "'d arith \<Rightarrow> extractor \<Rightarrow> CANFrame \<Rightarrow> ('d, 'v) DBC_SIGNAL \<Rightarrow> 'd" where
  "single_float_value A pis frame s =
    dadd A (dmul A (from_float_bits A (ucast (pis (data frame) (startBit s) 32 False False)))
              (factor s)) (bias s)"

definition single_float_configured ::
  "'d arith \<Rightarrow> extractor \<Rightarrow> CANFrame \<Rightarrow> ('d, 'v) DBC_SIGNAL \<Rightarrow> 'd" where
  "single_float_configured A pis frame s =
    dadd A (dmul A (from_float_bits A
                      (ucast (pis (data frame) (startBit s) 32 (intelByteOrder s) False)))
              (factor s)) (bias s)"

text \<open>The scaled value of an integer signal in the text and double decoders.\<close>

definition integer_value ::
  "'d arith \<Rightarrow> extractor \<Rightarrow> CANFrame \<Rightarrow> ('d, 'v) DBC_SIGNAL \<Rightarrow> 'd" where
  "integer_value A pis frame s =
    dadd A (dmul A (from_int A (sint (pis (data frame) (startBit s) (signalSize s)
                                       (intelByteOrder s) (valType s = SIGNED_INT))))
              (factor s)) (bias s)"

text \<open>
  The text the specification describes for a scaled value: the description of the first
  table entry whose key is the truncated integer of the scaled value, else the number
  and the unit, after the name and \<open>": "\<close>.
\<close>

definition table_text :: "'d arith \<Rightarrow> ('d, 'v) DBC_SIGNAL \<Rightarrow> 'd \<Rightarrow> string" where
  "table_text A s scaled =
    name s @ '': '' @
    (case find (\<lambda>v. val_value v = to_int64 A scaled) (valList s) of
       Some v \<Rightarrow> descript v
     | None \<Rightarrow> number A scaled @ unitName s)"

section \<open>Concrete frames and definitions\<close>

text \<open>
  A single-precision signal configured as INTEL, with a value table, in a message
  without multiplexor; \<open>sigF64\<close> is the same signal declared 64 bits long. The frame
  holds the pattern \<open>0x3F800000\<close> of the number 1 from bit 7 on in MOTOROLA order.
\<close>

definition sigF :: "(xdouble, unit) DBC_SIGNAL" where
  "sigF = \<lparr> name = ''F'', startBit = 7, signalSize = 32, intelByteOrder = True,
            isMultiplexed = False, multiplexValue = 0, valType = SP_FLOAT,
            factor = Finite 1, bias = Finite 0, unitName = ''V'',
            valList = [\<lparr>val_value = 1, descript = ''ON''\<rparr>],
            parentMessage = 0, sig_attributes = [] \<rparr>"


definition sigD :: "(xdouble, unit) DBC_SIGNAL" where
  "sigD = sigF\<lparr>name := ''D'', startBit := 16, signalSize := 64, valType := DP_FLOAT\<rparr>"

definition msg0 :: "unit DBC_MESSAGE" where
  "msg0 = \<lparr> multiplexorSignal = None, msg_attributes = [] \<rparr>"

definition st0 :: "(xdouble, unit) dbc" where
  "st0 = \<lparr> sigs = (\<lambda>_. sigF), msgs = (\<lambda>_. msg0) \<rparr>"

definition frameF :: CANFrame where
  "frameF = \<lparr> len = 8, data = [0x3F, 0x80, 0, 0, 0, 0, 0, 0] \<rparr>"

text \<open>
  A message with the multiplexor \<open>M\<close> in byte 0 (address 0) and the signals \<open>A\<close>
  (selector 0, address 1) and \<open>B\<close> (selector 1, address 2) in byte 1; \<open>sigS\<close> is a
  multiplexed text signal with selector 0 in bytes 1 and 2, and \<open>sigI\<close> an integer
  signal of 16 bits from bit 20. In \<open>frameMux\<close> the multiplexor is 1.
\<close>

definition sigM :: "(xdouble, unit) DBC_SIGNAL" where
  "sigM = \<lparr> name = ''M'', startBit = 0, signalSize = 8, intelByteOrder = True,
            isMultiplexed = False, multiplexValue = 0, valType = UNSIGNED_INT,
            factor = Finite 1, bias = Finite 0, unitName = [],
            valList = [], parentMessage = 0, sig_attributes = [] \<rparr>"

definition sigA :: "(xdouble, unit) DBC_SIGNAL" where
  "sigA = sigM\<lparr>name := ''A'', startBit := 8, isMultiplexed := True, multiplexValue := 0\<rparr>"

definition sigB :: "(xdouble, unit) DBC_SIGNAL" where
  "sigB = sigM\<lparr>name := ''B'', startBit := 8, isMultiplexed := True, multiplexValue := 1\<rparr>"

definition sigS :: "(xdouble, unit) DBC_SIGNAL" where
  "sigS = sigM\<lparr>name := ''S'', startBit := 8, signalSize := 16, isMultiplexed := True,
               multiplexValue := 0, valType := STRING\<rparr>"


definition msgMux :: "unit DBC_MESSAGE" where
  "msgMux = \<lparr> multiplexorSignal = Some 0, msg_attributes = [] \<rparr>"

definition stMux :: "(xdouble, unit) dbc" where
  "stMux = \<lparr> sigs = (\<lambda>i. if i = 0 then sigM else if i = 1 then sigA else sigB),
             msgs = (\<lambda>_. msgMux) \<rparr>"

definition frameMux :: CANFrame where
  "frameMux = \<lparr> len = 3, data = [1, 0x41, 0x42] \<rparr>"

text \<open>A frame of two bytes, too short for \<open>sigS\<close>, \<open>sigI\<close> and \<open>sigD\<close>.\<close>

definition frameShort :: CANFrame where
  "frameShort = \<lparr> len = 2, data = [1, 0x41] \<rparr>"

text \<open>
  The frame \<open>frameMux\<close> extended to 8 bytes, and double-precision signals of the
  multiplexed message with the selectors 0 and 1.
\<close>

definition frameMux8 :: CANFrame where
  "frameMux8 = \<lparr> len = 8, data = [1, 0x41, 0x42, 0, 0, 0, 0, 0] \<rparr>"

definition sigAD :: "(xdouble, unit) DBC_SIGNAL" where
  "sigAD = sigA\<lparr>name := ''AD'', startBit := 0, signalSize := 64, valType := DP_FLOAT\<rparr>"

definition sigBD :: "(xdouble, unit) DBC_SIGNAL" where
  "sigBD = sigB\<lparr>name := ''BD'', startBit := 0, signalSize := 64, valType := DP_FLOAT\<rparr>"

text \<open>A multiplexed integer signal that is the multiplexor of its own message.\<close>

definition sigC :: "(xdouble, unit) DBC_SIGNAL" where
  "sigC = sigM\<lparr>name := ''C'', isMultiplexed := True\<rparr>"

definition stCyc :: "(xdouble, unit) dbc" where
  "stCyc = \<lparr> sigs = (\<lambda>_. sigC), msgs = (\<lambda>_. msgMux) \<rparr>"

text \<open>A double-precision signal of that message, multiplexed by \<open>sigC\<close>.\<close>

definition sigCD :: "(xdouble, unit) DBC_SIGNAL" where
  "sigCD = sigC\<lparr>name := ''CD'', signalSize := 64, valType := DP_FLOAT\<rparr>"

text \<open>An attribute list with two names that differ in case only.\<close>

definition attrs3 :: "unit DBC_ATTRIBUTE_VALUE list" where
  "attrs3 = [\<lparr>attrName = ''GenMsgCycleTime'', attrValue = ()\<rparr>,
             \<lparr>attrName = ''Comment'', attrValue = ()\<rparr>,
             \<lparr>attrName = ''COMMENT'', attrValue = ()\<rparr>]"

section \<open>Basic facts about the decoders\<close>

lemma processAsInt_unfold:
  "processAsInt A pis st frame s =
    (if valType s = STRING \<or> valType s = SP_FLOAT \<or> valType s = DP_FLOAT
     then Some (Returned False None)
     else multiplex_block A pis st frame s
       (if len frame * 8 < startBit s + signalSize s
        then Returned False None
        else Returned True (Some (to_int32 A (dadd A (dmul A (from_int A
               (sint (ucast (pis (data frame) (startBit s) (signalSize s) (intelByteOrder s)
                        (valType s = SIGNED_INT)) :: 32 word))) (factor s)) (bias s))))))"
  by (subst processAsInt.simps) (simp add: multiplex_block_def Let_def split: option.splits)

lemma proper_simps [simp]:
  "\<not> proper Fault"
  "proper (Returned ok w) \<longleftrightarrow> (ok \<longleftrightarrow> w \<noteq> None)"
  by (simp_all add: proper_def)

lemma after_multiplexor_proper:
  "proper r \<Longrightarrow> proper rest \<Longrightarrow> proper (after_multiplexor mv r rest)"
  by (cases r) (auto simp: after_multiplexor_def split: bool.splits option.splits)

lemma after_multiplexor_False:
  "after_multiplexor mv r rest = Returned False w \<Longrightarrow> w = None \<or> rest = Returned False w"
  by (auto simp: after_multiplexor_def split: outcome.splits bool.splits option.splits if_splits)

lemma after_multiplexor_fail:
  "proper r \<Longrightarrow> after_multiplexor mv r (Returned False None) = Returned False None"
  by (cases r) (auto simp: after_multiplexor_def split: bool.splits option.splits)

lemma multiplex_block_plain:
  "\<not> isMultiplexed s \<Longrightarrow> multiplex_block A pis st frame s rest = Some rest"
  by (simp add: multiplex_block_def)

lemma multiplex_block_False:
  "multiplex_block A pis st frame s rest = Some (Returned False w) \<Longrightarrow>
   w = None \<or> rest = Returned False w"
  by (auto simp: multiplex_block_def split: if_splits option.splits bind_splits
      dest: after_multiplexor_False)

lemma multiplex_block_match:
  "multiplex_match A pis st frame s \<Longrightarrow> multiplex_block A pis st frame s rest = Some rest"
  by (auto simp: multiplex_match_def multiplex_block_def after_multiplexor_def
      split: if_splits option.splits)

text \<open>
  \<^verbatim>\<open>processAsInt\<close> never faults, and it assigns \<^verbatim>\<open>outValue\<close> exactly when it returns
  \<^verbatim>\<open>true\<close>: by induction over the calls that return.
\<close>

lemma processAsInt_proper:
  assumes "processAsInt A pis st frame s = Some r"
  shows "proper r"
proof (rule processAsInt.raw_induct[where P = "\<lambda>A pis st frame s r. proper r", OF _ assms])
  fix f :: "'a arith \<Rightarrow> extractor \<Rightarrow> ('a, 'b) dbc \<Rightarrow> CANFrame \<Rightarrow> ('a, 'b) DBC_SIGNAL
            \<Rightarrow> int outcome option"
  fix A pis st frame s r
  assume IH: "\<And>A pis st frame s r. f A pis st frame s = Some r \<Longrightarrow> proper r"
  assume "(let rest =
            let isSigned = valType s = SIGNED_INT
            in if len frame * 8 < startBit s + signalSize s
               then Returned False None
               else let result = sint (ucast (pis (data frame) (startBit s) (signalSize s)
                                                (intelByteOrder s) isSigned) :: 32 word);
                        endResult = dadd A (dmul A (from_int A result) (factor s)) (bias s);
                        result = to_int32 A endResult
                    in Returned True (Some result)
      in if valType s = STRING \<or> valType s = SP_FLOAT \<or> valType s = DP_FLOAT
         then Some (Returned False None)
         else if isMultiplexed s
              then case multiplexorSignal (msgs st (parentMessage s)) of
                     None \<Rightarrow> Some (Returned False None)
                   | Some m \<Rightarrow>
                       f A pis st frame (sigs st m) \<bind>
                       (\<lambda>r. Some (after_multiplexor (multiplexValue s) r rest))
              else Some rest) = Some r"
  then show "proper r"
    by (auto simp: Let_def split: if_splits option.splits bind_splits
        intro!: after_multiplexor_proper dest: IH)
qed

lemma multiplex_block_fail:
  assumes "multiplexor_returns A pis st frame s"
  shows "multiplex_block A pis st frame s (Returned False None) = Some (Returned False None)"
proof (cases "isMultiplexed s")
  case False
  then show ?thesis by (simp add: multiplex_block_def)
next
  case True
  show ?thesis
  proof (cases "multiplexorSignal (msgs st (parentMessage s))")
    case None
    with True show ?thesis by (simp add: multiplex_block_def)
  next
    case (Some m)
    with True assms obtain r where r: "processAsInt A pis st frame (sigs st m) = Some r"
      by (auto simp: multiplexor_returns_def)
    from processAsInt_proper[OF r] have "proper r" .
    with True Some r show ?thesis
      by (simp add: multiplex_block_def after_multiplexor_fail)
  qed
qed

lemma multiplex_block_proper:
  assumes "multiplex_block A pis st frame s rest = Some r" and "proper rest"
  shows "proper r"
  using assms
  by (auto simp: multiplex_block_def split: if_splits option.splits bind_splits
      intro!: after_multiplexor_proper dest: processAsInt_proper)

text \<open>
  A multiplexed integer signal that is its own multiplexor: \<^verbatim>\<open>processAsInt\<close> calls
  itself on the same signal and frame for ever, so that no call returns.
\<close>

lemma processAsInt_self_multiplexed:
  assumes ty: "valType s = SIGNED_INT \<or> valType s = UNSIGNED_INT"
    and mx: "isMultiplexed s"
    and link: "multiplexorSignal (msgs st (parentMessage s)) = Some m"
    and self: "sigs st m = s"
  shows "processAsInt A pis st frame s = None"
proof (cases "processAsInt A pis st frame s")
  case None
  then show ?thesis .
next
  case (Some r)
  have "st = st \<longrightarrow> s = s \<longrightarrow> False"
  proof (rule processAsInt.raw_induct
      [where P = "\<lambda>A' pis' st' frame' s' r'. st' = st \<longrightarrow> s' = s \<longrightarrow> False", OF _ Some])
    fix f :: "'a arith \<Rightarrow> extractor \<Rightarrow> ('a, 'b) dbc \<Rightarrow> CANFrame \<Rightarrow> ('a, 'b) DBC_SIGNAL
              \<Rightarrow> int outcome option"
    fix A' pis' frame' r'
    fix st' :: "('a, 'b) dbc" and s' :: "('a, 'b) DBC_SIGNAL"
    assume IH: "\<And>A pis (st' :: ('a, 'b) dbc) frame (s' :: ('a, 'b) DBC_SIGNAL) r.
                  f A pis st' frame s' = Some r \<Longrightarrow> st' = st \<longrightarrow> s' = s \<longrightarrow> False"
    assume body: "(let rest =
            let isSigned = valType s' = SIGNED_INT
            in if len frame' * 8 < startBit s' + signalSize s'
               then Returned False None
               else let result = sint (ucast (pis' (data frame') (startBit s') (signalSize s')
                                                (intelByteOrder s') isSigned) :: 32 word);
                        endResult = dadd A' (dmul A' (from_int A' result) (factor s')) (bias s');
                        result = to_int32 A' endResult
                    in Returned True (Some result)
      in if valType s' = STRING \<or> valType s' = SP_FLOAT \<or> valType s' = DP_FLOAT
         then Some (Returned False None)
         else if isMultiplexed s'
              then case multiplexorSignal (msgs st' (parentMessage s')) of
                     None \<Rightarrow> Some (Returned False None)
                   | Some m \<Rightarrow>
                       f A' pis' st' frame' (sigs st' m) \<bind>
                       (\<lambda>r. Some (after_multiplexor (multiplexValue s') r rest))
              else Some rest) = Some r'"
    show "st' = st \<longrightarrow> s' = s \<longrightarrow> False"
    proof (intro impI)
      assume eq: "st' = st" "s' = s"
      from ty have nr: "\<not> (valType s = STRING \<or> valType s = SP_FLOAT \<or> valType s = DP_FLOAT)"
        by auto
      from body eq nr mx link self
      obtain r0 where "f A' pis' st frame' s = Some r0"
        by (auto simp: Let_def split: bind_splits)
      from IH[OF this] show False by simp
    qed
  qed
  then show ?thesis by simp
qed

text \<open>
  On a failing rest, the multiplex block fails, unless the multiplexor's decode does not
  return.
\<close>

lemma multiplex_block_never_succeeds:
  "multiplex_block A pis st frame s (Returned False None) = None \<or>
   multiplex_block A pis st frame s (Returned False None) = Some (Returned False None)"
proof (cases "multiplexor_returns A pis st frame s")
  case True
  then show ?thesis by (simp add: multiplex_block_fail)
next
  case False
  then show ?thesis
    by (auto simp: multiplexor_returns_def multiplex_block_def split: if_splits option.splits)
qed

text \<open>
  Where the extractor of the specification succeeds, \<open>processIntegerSignal\<close> is its
  value.
\<close>

lemma extractInteger_processIntegerSignal:
  "extractInteger bytes start n intel sgnd = Some v \<Longrightarrow>
   processIntegerSignal bytes start n intel sgnd = word_of_int v"
  by (auto simp: extractInteger_def processIntegerSignal_def split: if_splits)

section \<open>Failure leaves the output parameter alone\<close>

text \<open>
  C10. For each of \<^verbatim>\<open>processAsText\<close>, \<^verbatim>\<open>processAsInt\<close> and \<^verbatim>\<open>processAsDouble\<close>: a
  call that returns \<^verbatim>\<open>false\<close>, for whatever reason, has executed no assignment to the
  caller's output parameter; the output is written only by a call that returns
  \<^verbatim>\<open>true\<close>.
\<close>

theorem C10_failure_leaves_output_unmodified:
  "(processAsText A pis st frame s = Some (Returned False ws) \<longrightarrow> ws = None) \<and>
   (processAsInt A pis st frame s = Some (Returned False wi) \<longrightarrow> wi = None) \<and>
   (processAsDouble A pis st frame s = Some (Returned False wd) \<longrightarrow> wd = None)"
proof (intro conjI impI)
  assume "processAsText A pis st frame s = Some (Returned False ws)"
  then show "ws = None"
    by (auto simp: processAsText_def Let_def split: if_splits option.splits
        dest!: multiplex_block_False)
next
  assume "processAsInt A pis st frame s = Some (Returned False wi)"
  then show "wi = None"
    by (auto simp: processAsInt_unfold split: if_splits dest!: multiplex_block_False)
next
  assume "processAsDouble A pis st frame s = Some (Returned False wd)"
  then show "wd = None"
    by (auto simp: processAsDouble_def Let_def split: if_splits dest!: multiplex_block_False)
qed

lemma sigA_text_fails:
  "processAsText exact_arith processIntegerSignal stMux frameMux sigA = Some (Returned False None)"
  by code_simp

lemma sigA_int_fails:
  "processAsInt exact_arith processIntegerSignal stMux frameMux sigA = Some (Returned False None)"
  by code_simp

lemma sigA_double_fails:
  "processAsDouble exact_arith processIntegerSignal stMux frameMux sigA = Some (Returned False None)"
  by code_simp

theorem C10_failure_leaves_output_unmodified_witness:
  "processAsText exact_arith processIntegerSignal stMux frameMux sigA = Some (Returned False None) \<and>
   processAsInt exact_arith processIntegerSignal stMux frameMux sigA = Some (Returned False None) \<and>
   processAsDouble exact_arith processIntegerSignal stMux frameMux sigA = Some (Returned False None) \<and>
   (None :: string option) = None \<and> (None :: int option) = None \<and>
   (None :: xdouble option) = None"
  using C10_failure_leaves_output_unmodified
    [of exact_arith processIntegerSignal stMux frameMux sigA None None None]
    sigA_text_fails sigA_int_fails sigA_double_fails
  by simp

section \<open>Which value types the entry points accept\<close>

lemma processAsInt_rejects:
  "valType s = STRING \<or> valType s = SP_FLOAT \<or> valType s = DP_FLOAT \<Longrightarrow>
   processAsInt A pis st frame s = Some (Returned False None)"
  by (simp add: processAsInt_unfold)

lemma processAsDouble_integer:
  "valType s = SIGNED_INT \<or> valType s = UNSIGNED_INT \<Longrightarrow>
   processAsDouble A pis st frame s =
     multiplex_block A pis st frame s
       (if len frame * 8 < startBit s + signalSize s then Returned False None
        else Returned True (Some (integer_value A pis frame s)))"
  by (auto simp: processAsDouble_def integer_value_def Let_def)

lemma processAsDouble_single:
  "valType s = SP_FLOAT \<Longrightarrow>
   processAsDouble A pis st frame s =
     multiplex_block A pis st frame s
       (if len frame * 8 < startBit s + 32 then Returned False None
        else Returned True (Some (single_float_value A pis frame s)))"
  by (simp add: processAsDouble_def single_float_value_def Let_def)

lemma processAsDouble_double:
  "valType s = DP_FLOAT \<Longrightarrow>
   processAsDouble A pis st frame s =
     multiplex_block A pis st frame s
       (if len frame < 8 then Returned False None
        else Returned True (Some (whole_frame_double A pis frame s)))"
  by (simp add: processAsDouble_def whole_frame_double_def Let_def)

lemma processAsText_double:
  "valType s = DP_FLOAT \<Longrightarrow>
   processAsText A pis st frame s =
     multiplex_block A pis st frame s
       (if len frame < 8 then Returned False None
        else Returned True (Some (outputString A s (sint (pis (data frame) 0 64 False False))
                                    (whole_frame_double A pis frame s))))"
  by (simp add: processAsText_def whole_frame_double_def Let_def)

text \<open>
  C3. \<^verbatim>\<open>processAsInt\<close> returns \<^verbatim>\<open>false\<close> for every signal of type STRING, SP_FLOAT or
  DP_FLOAT, whatever the extractor, the frame and the multiplexing are (nothing is
  extracted). \<^verbatim>\<open>processAsDouble\<close> returns \<^verbatim>\<open>false\<close> for every STRING signal, and it
  accepts the four other types: a signal of such a type that is in the frame, on a
  frame long enough for it, is decoded with success.
\<close>

theorem C3_entry_point_type_gating:
  "(valType s = STRING \<or> valType s = SP_FLOAT \<or> valType s = DP_FLOAT \<longrightarrow>
      processAsInt A pis st frame s = Some (Returned False None)) \<and>
   (valType s = STRING \<longrightarrow> processAsDouble A pis st frame s = Some (Returned False None)) \<and>
   ((valType s = SIGNED_INT \<or> valType s = UNSIGNED_INT) \<and>
    multiplex_match A pis st frame s \<and> startBit s + signalSize s \<le> len frame * 8 \<longrightarrow>
      processAsDouble A pis st frame s = Some (Returned True (Some (integer_value A pis frame s)))) \<and>
   (valType s = SP_FLOAT \<and>
    multiplex_match A pis st frame s \<and> startBit s + 32 \<le> len frame * 8 \<longrightarrow>
      processAsDouble A pis st frame s =
        Some (Returned True (Some (single_float_value A pis frame s)))) \<and>
   (valType s = DP_FLOAT \<and> multiplex_match A pis st frame s \<and> 8 \<le> len frame \<longrightarrow>
      processAsDouble A pis st frame s =
        Some (Returned True (Some (whole_frame_double A pis frame s))))"
proof (intro conjI impI)
  assume "valType s = STRING \<or> valType s = SP_FLOAT \<or> valType s = DP_FLOAT"
  then show "processAsInt A pis st frame s = Some (Returned False None)"
    by (rule processAsInt_rejects)
next
  assume "valType s = STRING"
  then show "processAsDouble A pis st frame s = Some (Returned False None)"
    by (simp add: processAsDouble_def)
next
  assume "(valType s = SIGNED_INT \<or> valType s = UNSIGNED_INT) \<and>
    multiplex_match A pis st frame s \<and> startBit s + signalSize s \<le> len frame * 8"
  then show "processAsDouble A pis st frame s =
      Some (Returned True (Some (integer_value A pis frame s)))"
    by (simp add: processAsDouble_integer multiplex_block_match)
next
  assume "valType s = SP_FLOAT \<and>
    multiplex_match A pis st frame s \<and> startBit s + 32 \<le> len frame * 8"
  then show "processAsDouble A pis st frame s =
      Some (Returned True (Some (single_float_value A pis frame s)))"
    by (simp add: processAsDouble_single multiplex_block_match)
next
  assume "valType s = DP_FLOAT \<and> multiplex_match A pis st frame s \<and> 8 \<le> len frame"
  then show "processAsDouble A pis st frame s =
      Some (Returned True (Some (whole_frame_double A pis frame s)))"
    by (simp add: processAsDouble_double multiplex_block_match)
qed

lemma sigB_match: "multiplex_match exact_arith processIntegerSignal stMux frameMux sigB"
  by code_simp

lemma sigB_value: "integer_value exact_arith processIntegerSignal frameMux sigB = Finite 65"
  by code_simp

theorem C3_entry_point_type_gating_witness:
  "processAsInt exact_arith processIntegerSignal stMux frameMux sigS = Some (Returned False None) \<and>
   processAsDouble exact_arith processIntegerSignal stMux frameMux sigS = Some (Returned False None) \<and>
   processAsInt exact_arith processIntegerSignal st0 frameF sigF = Some (Returned False None) \<and>
   processAsDouble exact_arith processIntegerSignal stMux frameMux sigB =
     Some (Returned True (Some (Finite 65)))"
  using C3_entry_point_type_gating [of sigS exact_arith processIntegerSignal stMux frameMux]
    C3_entry_point_type_gating [of sigF exact_arith processIntegerSignal st0 frameF]
    C3_entry_point_type_gating [of sigB exact_arith processIntegerSignal stMux frameMux]
    sigB_match sigB_value
  by (simp add: sigS_def sigF_def sigB_def sigM_def frameMux_def)

section \<open>The floating-point signals\<close>

text \<open>
  C4, the claim as stated fails for multiplexed signals. The double-precision signal
  \<open>sigCD\<close> is multiplexed by a signal that is its own multiplexor: on a frame of 2 bytes
  neither decoder reports failure, since neither call returns. The double-precision
  signal \<open>sigAD\<close> has the selector 0 and the multiplexor is 1: on a frame of 8 bytes both
  decoders return \<^verbatim>\<open>false\<close> instead of the value of the 64 bits.
\<close>

theorem C4_double_float_counterexample:
  "valType sigCD = DP_FLOAT \<and> len frameShort < 8 \<and>
   processAsDouble exact_arith processIntegerSignal stCyc frameShort sigCD = None \<and>
   processAsText exact_arith processIntegerSignal stCyc frameShort sigCD = None \<and>
   valType sigAD = DP_FLOAT \<and> 8 \<le> len frameMux8 \<and>
   processAsDouble exact_arith processIntegerSignal stMux frameMux8 sigAD =
     Some (Returned False None) \<and>
   processAsText exact_arith processIntegerSignal stMux frameMux8 sigAD =
     Some (Returned False None)"
proof -
  have ty: "valType sigC = SIGNED_INT \<or> valType sigC = UNSIGNED_INT"
    by (simp add: sigC_def sigM_def)
  have mx: "isMultiplexed sigC"
    by (simp add: sigC_def)
  have link: "multiplexorSignal (msgs stCyc (parentMessage sigC)) = Some 0"
    by (simp add: stCyc_def msgMux_def)
  have self: "sigs stCyc 0 = sigC"
    by (simp add: stCyc_def)
  have none: "processAsInt exact_arith processIntegerSignal stCyc frameShort sigC = None"
    by (rule processAsInt_self_multiplexed[OF ty mx link self])
  have dp: "valType sigCD = DP_FLOAT"
    by (simp add: sigCD_def)
  have blk: "multiplex_block exact_arith processIntegerSignal stCyc frameShort sigCD rest = None"
    for rest :: "'a outcome"
    using none by (simp add: multiplex_block_def sigCD_def sigC_def stCyc_def msgMux_def sigM_def)
  have c1: "processAsDouble exact_arith processIntegerSignal stCyc frameShort sigCD = None"
    by (simp add: processAsDouble_double[OF dp] blk)
  have c2: "processAsText exact_arith processIntegerSignal stCyc frameShort sigCD = None"
    by (simp add: processAsText_double[OF dp] blk)
  have c3: "len frameShort < 8 \<and> valType sigAD = DP_FLOAT \<and> 8 \<le> len frameMux8 \<and>
    processAsDouble exact_arith processIntegerSignal stMux frameMux8 sigAD =
      Some (Returned False None) \<and>
    processAsText exact_arith processIntegerSignal stMux frameMux8 sigAD =
      Some (Returned False None)"
    by code_simp
  from dp c1 c2 c3 show ?thesis by simp
qed

text \<open>
  C4, amended. For a DP_FLOAT signal, \<^verbatim>\<open>processAsDouble\<close> and \<^verbatim>\<open>processAsText\<close> never
  succeed on a frame of fewer than 8 bytes, and they fail on it whenever the multiplexor's
  decode returns (as it does for every signal that is not multiplexed). On a frame of at
  least 8 bytes, when the signal is in the frame (it is not multiplexed, or the
  multiplexor decodes to its selector), both take 64 bits from bit 0 with the constant
  byte-order argument \<^verbatim>\<open>false\<close>, read them as a double and apply factor and bias; the
  value does not depend on the signal's start bit or byte order.
\<close>

theorem C4_double_float_whole_frame:
  "valType s = DP_FLOAT \<longrightarrow>
   (len frame < 8 \<longrightarrow>
      (processAsDouble A pis st frame s = None \<or>
       processAsDouble A pis st frame s = Some (Returned False None)) \<and>
      (processAsText A pis st frame s = None \<or>
       processAsText A pis st frame s = Some (Returned False None))) \<and>
   (len frame < 8 \<and> multiplexor_returns A pis st frame s \<longrightarrow>
      processAsDouble A pis st frame s = Some (Returned False None) \<and>
      processAsText A pis st frame s = Some (Returned False None)) \<and>
   (8 \<le> len frame \<and> multiplex_match A pis st frame s \<longrightarrow>
      processAsDouble A pis st frame s =
        Some (Returned True (Some (whole_frame_double A pis frame s))) \<and>
      processAsText A pis st frame s =
        Some (Returned True (Some (outputString A s (sint (pis (data frame) 0 64 False False))
                                     (whole_frame_double A pis frame s))))) \<and>
   whole_frame_double A pis frame (s\<lparr>startBit := b, intelByteOrder := ord\<rparr>) =
     whole_frame_double A pis frame s"
proof (intro impI conjI)
  assume t: "valType s = DP_FLOAT" and h: "len frame < 8"
  from t h multiplex_block_never_succeeds[of A pis st frame s]
  show "processAsDouble A pis st frame s = None \<or>
      processAsDouble A pis st frame s = Some (Returned False None)"
    by (simp add: processAsDouble_double)
  from t h multiplex_block_never_succeeds[of A pis st frame s]
  show "processAsText A pis st frame s = None \<or>
      processAsText A pis st frame s = Some (Returned False None)"
    by (simp add: processAsText_double)
next
  assume t: "valType s = DP_FLOAT" and h: "len frame < 8 \<and> multiplexor_returns A pis st frame s"
  from t h show "processAsDouble A pis st frame s = Some (Returned False None)"
    by (simp add: processAsDouble_double multiplex_block_fail)
  from t h show "processAsText A pis st frame s = Some (Returned False None)"
    by (simp add: processAsText_double multiplex_block_fail)
next
  assume t: "valType s = DP_FLOAT" and h: "8 \<le> len frame \<and> multiplex_match A pis st frame s"
  from t h show "processAsDouble A pis st frame s =
      Some (Returned True (Some (whole_frame_double A pis frame s)))"
    by (simp add: processAsDouble_double multiplex_block_match)
  from t h show "processAsText A pis st frame s =
      Some (Returned True (Some (outputString A s (sint (pis (data frame) 0 64 False False))
                                   (whole_frame_double A pis frame s))))"
    by (simp add: processAsText_double multiplex_block_match)
next
  show "whole_frame_double A pis frame (s\<lparr>startBit := b, intelByteOrder := ord\<rparr>) =
     whole_frame_double A pis frame s"
    by (simp add: whole_frame_double_def)
qed

lemma sigD_value:
  "whole_frame_double exact_arith processIntegerSignal frameF sigD = Finite (- 2) \<and>
   outputString exact_arith sigD (sint (processIntegerSignal (data frameF) 0 64 False False))
     (Finite (- 2)) = ''D: -2V''"
  by code_simp

lemma sigBD_match:
  "multiplex_match exact_arith processIntegerSignal stMux frameMux8 sigBD \<and>
   multiplexor_returns exact_arith processIntegerSignal stMux frameShort sigBD"
  by code_simp

theorem C4_double_float_whole_frame_witness:
  "processAsDouble exact_arith processIntegerSignal st0 frameShort sigD =
     Some (Returned False None) \<and>
   processAsText exact_arith processIntegerSignal st0 frameShort sigD =
     Some (Returned False None) \<and>
   processAsDouble exact_arith processIntegerSignal st0 frameF sigD =
     Some (Returned True (Some (Finite (- 2)))) \<and>
   processAsText exact_arith processIntegerSignal st0 frameF sigD =
     Some (Returned True (Some ''D: -2V'')) \<and>
   processAsDouble exact_arith processIntegerSignal stMux frameShort sigBD =
     Some (Returned False None) \<and>
   processAsDouble exact_arith processIntegerSignal stMux frameMux8 sigBD =
     Some (Returned True
       (Some (whole_frame_double exact_arith processIntegerSignal frameMux8 sigBD)))"
  using C4_double_float_whole_frame [of sigD frameShort exact_arith processIntegerSignal st0]
    C4_double_float_whole_frame [of sigD frameF exact_arith processIntegerSignal st0]
    C4_double_float_whole_frame [of sigBD frameShort exact_arith processIntegerSignal stMux]
    C4_double_float_whole_frame [of sigBD frameMux8 exact_arith processIntegerSignal stMux]
    sigD_value sigBD_match
  by (simp add: sigD_def sigBD_def sigB_def sigF_def frameShort_def frameF_def frameMux8_def
      multiplexor_returns_def multiplex_match_def)

text \<open>
  C6, the code at the failing input. The single-precision signal \<open>sigF\<close> is configured
  as INTEL and lies in the frame. \<^verbatim>\<open>processAsDouble\<close> returns the number 1, which is
  the MOTOROLA reading of the 32 bits from bit 7, whereas the 32 bits taken in the
  configured order are the pattern of \<open>1 / 2 ^ 141\<close>: the calls of the extractor at lines 81
  and 218 pass the constant \<^verbatim>\<open>false\<close> where the integer branch passes
  \<^verbatim>\<open>intelByteOrder\<close>.
\<close>

theorem C6_single_float_ignores_byte_order:
  "valType sigF = SP_FLOAT \<and> intelByteOrder sigF \<and> \<not> isMultiplexed sigF \<and>
   startBit sigF + 32 \<le> len frameF * 8 \<and>
   processAsDouble exact_arith processIntegerSignal st0 frameF sigF =
     Some (Returned True (Some (Finite 1))) \<and>
   single_float_configured exact_arith processIntegerSignal frameF sigF = Finite (1 / 2 ^ 141)"
  by code_simp

text \<open>
  What \<^verbatim>\<open>processAsDouble\<close> does for a SP_FLOAT signal: it fails when \<open>startBit + 32\<close>
  exceeds the frame's bit length, and it decodes the 32 bits from the start bit with the
  byte-order argument \<^verbatim>\<open>false\<close>, whatever byte order the signal has.
\<close>

lemma processAsDouble_single_float:
  "valType s = SP_FLOAT \<longrightarrow>
   (len frame * 8 < startBit s + 32 \<and> multiplexor_returns A pis st frame s \<longrightarrow>
      processAsDouble A pis st frame s = Some (Returned False None)) \<and>
   (startBit s + 32 \<le> len frame * 8 \<and> multiplex_match A pis st frame s \<longrightarrow>
      processAsDouble A pis st frame s =
        Some (Returned True (Some (single_float_value A pis frame s)))) \<and>
   single_float_value A pis frame (s\<lparr>intelByteOrder := ord\<rparr>) =
     single_float_value A pis frame s"
  by (simp add: processAsDouble_single multiplex_block_fail multiplex_block_match
      single_float_value_def)

section \<open>Short frames\<close>

text \<open>
  \<^verbatim>\<open>processAsText\<close> has no test of the frame length for the integer and the
  single-precision types: a signal of such a type that is in the frame is decoded with
  success on every frame.
\<close>

lemma processAsText_integer_unguarded:
  "valType s = SIGNED_INT \<or> valType s = UNSIGNED_INT \<Longrightarrow>
   multiplex_match A pis st frame s \<Longrightarrow>
   processAsText A pis st frame s =
     Some (Returned True (Some (outputString A s (to_int64 A (integer_value A pis frame s))
                                  (integer_value A pis frame s))))"
  by (auto simp: processAsText_def integer_value_def Let_def multiplex_block_match)

lemma processAsText_single_unguarded:
  "valType s = SP_FLOAT \<Longrightarrow> multiplex_match A pis st frame s \<Longrightarrow>
   processAsText A pis st frame s =
     Some (Returned True (Some (outputString A s
                                  (sint (pis (data frame) (startBit s) 32 False False))
                                  (single_float_value A pis frame s))))"
  by (simp add: processAsText_def single_float_value_def Let_def multiplex_block_match)

text \<open>A text signal is never reported as failed: it is built, or a byte is read out of range.\<close>

lemma processAsText_string:
  "valType s = STRING \<Longrightarrow>
   processAsText A pis st frame s =
     (case buildString frame (c_div (startBit s) 8) (c_div (signalSize s) 8) of
        None \<Rightarrow> Some Fault
      | Some str \<Rightarrow> Some (Returned True (Some str)))"
  by (simp add: processAsText_def Let_def)

lemma those_map_Some:
  "(\<And>x. x \<in> set xs \<Longrightarrow> f x = Some (g x)) \<Longrightarrow> those (map f xs) = Some (map g xs)"
  by (induction xs) simp_all

lemma those_map_None:
  "x \<in> set xs \<Longrightarrow> f x = None \<Longrightarrow> those (map f xs) = None"
  by (induction xs) (auto split: option.splits)

lemma upto_bytes:
  assumes "0 \<le> sb" and "sb + n \<le> int (length d)"
  shows "map (\<lambda>x. d ! nat (sb + x)) [0..n - 1] = take (nat n) (drop (nat sb) d)"
proof (rule nth_equalityI)
  show "length (map (\<lambda>x. d ! nat (sb + x)) [0..n - 1]) = length (take (nat n) (drop (nat sb) d))"
    using assms by auto
next
  fix i assume "i < length (map (\<lambda>x. d ! nat (sb + x)) [0..n - 1])"
  then have i: "int i < n" by auto
  then have "[0..n - 1] ! i = int i" by (simp add: nth_upto)
  with i assms show "map (\<lambda>x. d ! nat (sb + x)) [0..n - 1] ! i = take (nat n) (drop (nat sb) d) ! i"
    by (simp add: nat_add_distrib)
qed

lemma buildString_in_range:
  assumes "0 \<le> sb" and "sb + n \<le> len frame" and "len frame \<le> int (length (data frame))"
  shows "buildString frame sb n =
    Some (map (\<lambda>b. char_of (unat b)) (take (nat n) (drop (nat sb) (data frame))))"
proof -
  have "those (map (\<lambda>x. byte_at frame (sb + x)) [0..n - 1]) =
        Some (map (\<lambda>x. data frame ! nat (sb + x)) [0..n - 1])"
    using assms by (intro those_map_Some) (auto simp: byte_at_def)
  also have "map (\<lambda>x. data frame ! nat (sb + x)) [0..n - 1] =
      take (nat n) (drop (nat sb) (data frame))"
    using assms by (intro upto_bytes) auto
  finally show ?thesis by (simp add: buildString_def)
qed

lemma buildString_out_of_range:
  assumes "0 < n" and "len frame < sb + n"
  shows "buildString frame sb n = None"
proof -
  have "n - 1 \<in> set [0..n - 1]" using assms by simp
  moreover have "byte_at frame (sb + (n - 1)) = None"
    using assms by (simp add: byte_at_def)
  ultimately have "those (map (\<lambda>x. byte_at frame (sb + x)) [0..n - 1]) = None"
    by (rule those_map_None)
  then show ?thesis by (simp add: buildString_def)
qed

lemma c_div_nonneg: "0 \<le> a \<Longrightarrow> c_div a 8 = a div 8"
  by (simp add: c_div_def sgn_if)

text \<open>
  The text of a STRING signal whose bytes lie in the frame: \<open>signalSize div 8\<close> bytes from
  byte \<open>startBit div 8\<close> on, as characters.
\<close>

lemma processAsText_string_copies:
  assumes "valType s = STRING" and "0 \<le> startBit s" and "0 \<le> signalSize s"
    and "startBit s div 8 + signalSize s div 8 \<le> len frame"
    and "len frame \<le> int (length (data frame))"
  shows "processAsText A pis st frame s =
    Some (Returned True (Some (map (\<lambda>b. char_of (unat b))
      (take (nat (signalSize s div 8)) (drop (nat (startBit s div 8)) (data frame))))))"
proof -
  have "buildString frame (startBit s div 8) (signalSize s div 8) =
    Some (map (\<lambda>b. char_of (unat b))
      (take (nat (signalSize s div 8)) (drop (nat (startBit s div 8)) (data frame))))"
    using assms by (intro buildString_in_range) auto
  with assms show ?thesis
    by (simp add: processAsText_string c_div_nonneg)
qed

text \<open>
  A STRING signal of at least one byte that ends behind the frame: \<^verbatim>\<open>processAsText\<close>
  reads \<^verbatim>\<open>frame.data\<close> out of range instead of reporting failure.
\<close>

lemma processAsText_string_short:
  assumes "valType s = STRING" and "0 \<le> startBit s" and "8 \<le> signalSize s"
    and "len frame < startBit s div 8 + signalSize s div 8"
  shows "processAsText A pis st frame s = Some Fault"
proof -
  have "buildString frame (startBit s div 8) (signalSize s div 8) = None"
    using assms by (intro buildString_out_of_range) auto
  with assms show ?thesis
    by (simp add: processAsText_string c_div_nonneg)
qed

text \<open>
  The calls of the extractor by \<^verbatim>\<open>processAsInt\<close> and \<^verbatim>\<open>processAsDouble\<close> are behind
  the tests of the frame length: every access of a call stays in the frame, with those
  of the nested calls for the multiplexors.
\<close>

lemma processAsInt_accesses_unfold:
  "processAsInt_accesses A pis st frame s =
    (if valType s = STRING \<or> valType s = SP_FLOAT \<or> valType s = DP_FLOAT
     then Some []
     else multiplex_block_accesses A pis st frame s
       (if len frame * 8 < startBit s + signalSize s then []
        else [Extraction (startBit s) (signalSize s)]))"
  by (subst processAsInt_accesses.simps)
    (simp add: multiplex_block_accesses_def Let_def split: option.splits)


text \<open>The accesses of a call of \<^verbatim>\<open>processAsInt\<close> that returns are a finite list.\<close>

lemma processAsInt_accesses_returns:
  assumes "processAsInt A pis st frame s = Some r"
  shows "\<exists>t. processAsInt_accesses A pis st frame s = Some t"
proof -
  have "processAsInt A pis st frame s = Some r \<and>
        (\<exists>t. processAsInt_accesses A pis st frame s = Some t)"
  proof (rule processAsInt.raw_induct
      [where P = "\<lambda>A pis st frame s r. processAsInt A pis st frame s = Some r \<and>
                    (\<exists>t. processAsInt_accesses A pis st frame s = Some t)", OF _ assms])
    fix f :: "'a arith \<Rightarrow> extractor \<Rightarrow> ('a, 'b) dbc \<Rightarrow> CANFrame \<Rightarrow> ('a, 'b) DBC_SIGNAL
              \<Rightarrow> int outcome option"
    fix A pis frame r
    fix st :: "('a, 'b) dbc" and s :: "('a, 'b) DBC_SIGNAL"
    assume IH: "\<And>A pis (st :: ('a, 'b) dbc) frame (s :: ('a, 'b) DBC_SIGNAL) r.
                  f A pis st frame s = Some r \<Longrightarrow>
                  processAsInt A pis st frame s = Some r \<and>
                  (\<exists>t. processAsInt_accesses A pis st frame s = Some t)"
    assume body: "(let rest =
              let isSigned = valType s = SIGNED_INT
              in if len frame * 8 < startBit s + signalSize s
                 then Returned False None
                 else let result = sint (ucast (pis (data frame) (startBit s) (signalSize s)
                                                  (intelByteOrder s) isSigned) :: 32 word);
                          endResult = dadd A (dmul A (from_int A result) (factor s)) (bias s);
                          result = to_int32 A endResult
                      in Returned True (Some result)
        in if valType s = STRING \<or> valType s = SP_FLOAT \<or> valType s = DP_FLOAT
           then Some (Returned False None)
           else if isMultiplexed s
                then case multiplexorSignal (msgs st (parentMessage s)) of
                       None \<Rightarrow> Some (Returned False None)
                     | Some m \<Rightarrow>
                         f A pis st frame (sigs st m) \<bind>
                         (\<lambda>r. Some (after_multiplexor (multiplexValue s) r rest))
                else Some rest) = Some r"
    show "processAsInt A pis st frame s = Some r \<and>
          (\<exists>t. processAsInt_accesses A pis st frame s = Some t)"
    proof (cases "valType s = STRING \<or> valType s = SP_FLOAT \<or> valType s = DP_FLOAT \<or>
        \<not> isMultiplexed s \<or> multiplexorSignal (msgs st (parentMessage s)) = None")
      case True
      with body show ?thesis
        by (subst processAsInt_unfold, subst processAsInt_accesses_unfold)
          (auto simp: Let_def multiplex_block_def multiplex_block_accesses_def
            split: if_splits)
    next
      case False
      then obtain m where m: "multiplexorSignal (msgs st (parentMessage s)) = Some m"
        by auto
      with body False obtain r' where r': "f A pis st frame (sigs st m) = Some r'"
        by (auto simp: Let_def split: bind_splits)
      from IH[OF r'] obtain t' where
        int: "processAsInt A pis st frame (sigs st m) = Some r'" and
        acc: "processAsInt_accesses A pis st frame (sigs st m) = Some t'"
        by blast
      from body False m r' int acc show ?thesis
        by (subst processAsInt_unfold, subst processAsInt_accesses_unfold)
          (auto simp: Let_def multiplex_block_def multiplex_block_accesses_def
            split: if_splits)
    qed
  qed
  then show ?thesis by simp
qed

text \<open>
  A call of \<^verbatim>\<open>processAsInt\<close> that returns \<^verbatim>\<open>true\<close> has called the extractor for the
  signal, as its last access.
\<close>

lemma processAsInt_success_extracts:
  assumes "processAsInt A pis st frame s = Some (Returned True w)"
  shows "\<exists>t. processAsInt_accesses A pis st frame s =
               Some (t @ [Extraction (startBit s) (signalSize s)])"
proof (cases "isMultiplexed s")
  note once = assms[unfolded processAsInt_unfold]
  case False
  with once show ?thesis
    by (subst processAsInt_accesses_unfold)
      (auto simp: multiplex_block_def multiplex_block_accesses_def split: if_splits)
next
  note once = assms[unfolded processAsInt_unfold]
  case True
  from once True obtain m r where
    m: "multiplexorSignal (msgs st (parentMessage s)) = Some m" and
    r: "processAsInt A pis st frame (sigs st m) = Some r" and
    ty: "\<not> (valType s = STRING \<or> valType s = SP_FLOAT \<or> valType s = DP_FLOAT)" and
    am: "after_multiplexor (multiplexValue s) r
           (if len frame * 8 < startBit s + signalSize s then Returned False None
            else Returned True (Some (to_int32 A (dadd A (dmul A (from_int A
               (sint (ucast (pis (data frame) (startBit s) (signalSize s) (intelByteOrder s)
                        (valType s = SIGNED_INT)) :: 32 word))) (factor s)) (bias s)))))
         = Returned True w"
    by (auto simp: multiplex_block_def split: if_splits option.splits bind_splits)
  from am have sel: "selected (multiplexValue s) r"
    and long: "\<not> len frame * 8 < startBit s + signalSize s"
    by (auto simp: after_multiplexor_def selected_def
        split: outcome.splits bool.splits option.splits if_splits)
  from processAsInt_accesses_returns[OF r]
  obtain t where "processAsInt_accesses A pis st frame (sigs st m) = Some t"
    by blast
  with True m r ty sel long show ?thesis
    by (subst processAsInt_accesses_unfold) (simp add: multiplex_block_accesses_def)
qed










section \<open>Multiplexing\<close>

text \<open>
  What the multiplex block does for a multiplexed signal: it fails when the message has
  no multiplexor, when the multiplexor's \<^verbatim>\<open>processAsInt\<close> fails, and when the decoded
  value differs from the signal's \<^verbatim>\<open>multiplexValue\<close>; with the selector matched, the
  rest of the decoder runs.
\<close>

lemma multiplex_block_gate:
  assumes "isMultiplexed s"
  shows "(multiplexorSignal (msgs st (parentMessage s)) = None \<longrightarrow>
            multiplex_block A pis st frame s rest = Some (Returned False None)) \<and>
         (multiplexorSignal (msgs st (parentMessage s)) = Some m \<and>
          processAsInt A pis st frame (sigs st m) = Some (Returned False w) \<longrightarrow>
            multiplex_block A pis st frame s rest = Some (Returned False None)) \<and>
         (multiplexorSignal (msgs st (parentMessage s)) = Some m \<and>
          processAsInt A pis st frame (sigs st m) = Some (Returned True (Some v)) \<and>
          v \<noteq> multiplexValue s \<longrightarrow>
            multiplex_block A pis st frame s rest = Some (Returned False None)) \<and>
         (multiplexorSignal (msgs st (parentMessage s)) = Some m \<and>
          processAsInt A pis st frame (sigs st m) = Some (Returned True (Some (multiplexValue s)))
          \<longrightarrow> multiplex_block A pis st frame s rest = Some rest)"
  using assms by (simp add: multiplex_block_def after_multiplexor_def)

text \<open>
  The three decoders run the multiplex block: \<^verbatim>\<open>processAsInt\<close> for the types it does
  not reject (see \<open>processAsInt_unfold\<close>), \<^verbatim>\<open>processAsDouble\<close> and \<^verbatim>\<open>processAsText\<close> for
  every type but STRING.
\<close>

lemma processAsDouble_gated:
  "valType s \<noteq> STRING \<Longrightarrow>
   \<exists>rest. processAsDouble A pis st frame s = multiplex_block A pis st frame s rest"
  by (auto simp: processAsDouble_def)

lemma processAsText_gated:
  "valType s \<noteq> STRING \<Longrightarrow>
   \<exists>rest. processAsText A pis st frame s = multiplex_block A pis st frame s rest"
  by (auto simp: processAsText_def)

text \<open>
  The example of the specification: with the multiplexor at 1, the signal with selector
  0 is absent and the signal with selector 1 is decoded.
\<close>

lemma multiplex_example:
  "processAsInt exact_arith processIntegerSignal stMux frameMux sigM =
     Some (Returned True (Some 1)) \<and>
   processAsInt exact_arith processIntegerSignal stMux frameMux sigA =
     Some (Returned False None) \<and>
   processAsInt exact_arith processIntegerSignal stMux frameMux sigB =
     Some (Returned True (Some 65)) \<and>
   processAsText exact_arith processIntegerSignal stMux frameMux sigB =
     Some (Returned True (Some ''B: 65''))"
  by code_simp

text \<open>
  C1, the code at the failing input. The text signal \<open>sigS\<close> is multiplexed with
  selector 0, and the multiplexor of its message decodes to 1 on the frame; yet
  \<^verbatim>\<open>processAsText\<close> returns \<^verbatim>\<open>true\<close> with the text of bytes 1 and 2, because the STRING
  branch returns before the multiplex block.
\<close>

theorem C1_text_signal_escapes_multiplex_gate:
  "isMultiplexed sigS \<and> multiplexValue sigS = 0 \<and>
   multiplexorSignal (msgs stMux (parentMessage sigS)) = Some 0 \<and>
   processAsInt exact_arith processIntegerSignal stMux frameMux (sigs stMux 0) =
     Some (Returned True (Some 1)) \<and>
   processAsText exact_arith processIntegerSignal stMux frameMux sigS =
     Some (Returned True (Some ''AB''))"
  by code_simp

text \<open>
  C5, the code at the failing input. The text signal \<open>sigS\<close> is multiplexed and its
  message has no multiplexor; \<^verbatim>\<open>processAsText\<close> returns \<^verbatim>\<open>true\<close> with the text.
\<close>

theorem C5_multiplexed_text_without_multiplexor:
  "valType sigS = STRING \<and> isMultiplexed sigS \<and>
   multiplexorSignal (msgs st0 (parentMessage sigS)) = None \<and>
   processAsText exact_arith processIntegerSignal st0 frameMux sigS =
     Some (Returned True (Some ''AB''))"
  by code_simp

text \<open>The text decode of a STRING signal does not depend on the multiplexing at all.\<close>

lemma processAsText_string_unmultiplexed:
  "valType s = STRING \<Longrightarrow>
   processAsText A pis st frame (s\<lparr>isMultiplexed := b, multiplexValue := v\<rparr>) =
     processAsText A pis st' frame s"
  by (simp add: processAsText_def)

section \<open>The text of a decoded value\<close>

lemma lookupVal_find:
  "lookupVal vs r = map_option descript (find (\<lambda>v. val_value v = r) vs)"
  by (induction vs) simp_all

lemma outputString_table_text:
  "outputString A s (to_int64 A x) x = table_text A s x"
  by (cases "valList s")
    (simp_all add: outputString_def table_text_def lookupVal_find split: option.splits)

text \<open>
  For the integer types the text is the one the specification describes: the table is
  searched for the truncated integer of the scaled value.
\<close>

lemma processAsText_integer_table:
  "valType s = SIGNED_INT \<or> valType s = UNSIGNED_INT \<Longrightarrow>
   multiplex_match A pis st frame s \<Longrightarrow>
   processAsText A pis st frame s =
     Some (Returned True (Some (table_text A s (integer_value A pis frame s))))"
  by (simp add: processAsText_integer_unguarded outputString_table_text)

text \<open>
  C7, the code at the failing input. The single-precision signal \<open>sigF\<close> decodes to the
  number 1, whose truncated integer 1 is the key of the table entry \<open>ON\<close>, so that the
  text of the specification is \<open>F: ON\<close>. \<^verbatim>\<open>processAsText\<close> returns \<open>F: 1V\<close>: in the
  floating-point branches \<^verbatim>\<open>result\<close> keeps the extracted bit pattern, here
  \<open>0x3F800000\<close>, and the table is searched for that.
\<close>

theorem C7_float_table_lookup_by_bit_pattern:
  "valType sigF = SP_FLOAT \<and>
   valList sigF = [\<lparr>val_value = 1, descript = ''ON''\<rparr>] \<and>
   single_float_value exact_arith processIntegerSignal frameF sigF = Finite 1 \<and>
   to_int64 exact_arith (single_float_value exact_arith processIntegerSignal frameF sigF) = 1 \<and>
   table_text exact_arith sigF (single_float_value exact_arith processIntegerSignal frameF sigF)
     = ''F: ON'' \<and>
   sint (processIntegerSignal (data frameF) (startBit sigF) 32 False False) = 0x3F800000 \<and>
   processAsText exact_arith processIntegerSignal st0 frameF sigF =
     Some (Returned True (Some ''F: 1V''))"
  by code_simp

section \<open>Termination of the multiplex recursion\<close>

lemma int_chain_returns:
  "int_chain_ends st n s \<Longrightarrow> \<exists>r. processAsInt A pis st frame s = Some r"
proof (induction n arbitrary: s)
  case 0
  then show ?case
    by (auto simp: processAsInt_unfold multiplex_block_def)
next
  case (Suc n)
  show ?case
  proof (cases "valType s = STRING \<or> valType s = SP_FLOAT \<or> valType s = DP_FLOAT \<or>
      \<not> isMultiplexed s \<or> multiplexorSignal (msgs st (parentMessage s)) = None")
    case True
    then show ?thesis
      by (auto simp: processAsInt_unfold multiplex_block_def)
  next
    case False
    then obtain m where m: "multiplexorSignal (msgs st (parentMessage s)) = Some m"
      by auto
    with Suc.prems False have "int_chain_ends st n (sigs st m)"
      by simp
    from Suc.IH[OF this] obtain r where "processAsInt A pis st frame (sigs st m) = Some r"
      by auto
    with False m show ?thesis
      by (simp add: processAsInt_unfold multiplex_block_def)
  qed
qed

lemma multiplex_block_returns:
  "chain_ends st n s \<Longrightarrow> \<exists>r. multiplex_block A pis st frame s rest = Some r"
proof (cases "isMultiplexed s")
  case False
  then show ?thesis by (simp add: multiplex_block_def)
next
  case True
  assume c: "chain_ends st n s"
  show ?thesis
  proof (cases "multiplexorSignal (msgs st (parentMessage s))")
    case None
    with True show ?thesis by (simp add: multiplex_block_def)
  next
    case (Some m)
    with True c have "int_chain_ends st n (sigs st m)"
      by (simp add: chain_ends_def)
    from int_chain_returns[OF this]
    obtain r where "processAsInt A pis st frame (sigs st m) = Some r"
      by blast
    with True Some show ?thesis
      by (simp add: multiplex_block_def)
  qed
qed

text \<open>
  C8, the claim as stated fails: the decoders have no bound on the depth of the
  multiplex recursion, and on the cyclic definition set \<open>stCyc\<close> none of the three calls
  returns.
\<close>

theorem C8_cyclic_chain_counterexample:
  "processAsInt exact_arith processIntegerSignal stCyc frameMux sigC = None \<and>
   processAsText exact_arith processIntegerSignal stCyc frameMux sigC = None \<and>
   processAsDouble exact_arith processIntegerSignal stCyc frameMux sigC = None"
proof -
  have ty: "valType sigC = SIGNED_INT \<or> valType sigC = UNSIGNED_INT"
    by (simp add: sigC_def sigM_def)
  have mx: "isMultiplexed sigC"
    by (simp add: sigC_def)
  have link: "multiplexorSignal (msgs stCyc (parentMessage sigC)) = Some 0"
    by (simp add: stCyc_def msgMux_def)
  have self: "sigs stCyc 0 = sigC"
    by (simp add: stCyc_def)
  have none: "processAsInt exact_arith processIntegerSignal stCyc frameMux sigC = None"
    by (rule processAsInt_self_multiplexed[OF ty mx link self])
  have blk: "multiplex_block exact_arith processIntegerSignal stCyc frameMux sigC rest = None"
    for rest :: "'a outcome"
    using mx link self none by (simp add: multiplex_block_def)
  have "processAsText exact_arith processIntegerSignal stCyc frameMux sigC = None"
    using ty by (auto simp: processAsText_def blk)
  moreover have "processAsDouble exact_arith processIntegerSignal stCyc frameMux sigC = None"
    using ty by (auto simp: processAsDouble_def blk)
  ultimately show ?thesis using none by simp
qed

text \<open>
  C8, amended. Every call of the three decoders returns, for every frame, whenever the
  chain of multiplexor links from the signal ends within some number \<open>n\<close> of links
  (at a signal that is not multiplexed, at a signal of a type that \<^verbatim>\<open>processAsInt\<close>
  rejects, or at a message without multiplexor).
\<close>

theorem C8_finite_chain_returns:
  "chain_ends st n s \<Longrightarrow>
   (\<exists>r. processAsInt A pis st frame s = Some r) \<and>
   (\<exists>r. processAsText A pis st frame s = Some r) \<and>
   (\<exists>r. processAsDouble A pis st frame s = Some r)"
proof (intro conjI)
  assume c: "chain_ends st n s"
  note blk = multiplex_block_returns[OF c]
  show "\<exists>r. processAsInt A pis st frame s = Some r"
    by (simp add: processAsInt_unfold blk)
  show "\<exists>r. processAsText A pis st frame s = Some r"
    by (simp add: processAsText_def Let_def blk split: option.splits)
  show "\<exists>r. processAsDouble A pis st frame s = Some r"
    by (simp add: processAsDouble_def blk)
qed

lemma sigB_chain: "chain_ends stMux 0 sigB"
  by code_simp

theorem C8_finite_chain_returns_witness:
  "chain_ends stMux 0 sigB \<and>
   (\<exists>r. processAsInt exact_arith processIntegerSignal stMux frameMux sigB = Some r) \<and>
   (\<exists>r. processAsText exact_arith processIntegerSignal stMux frameMux sigB = Some r) \<and>
   (\<exists>r. processAsDouble exact_arith processIntegerSignal stMux frameMux sigB = Some r)"
  using C8_finite_chain_returns [OF sigB_chain, of exact_arith processIntegerSignal frameMux]
    sigB_chain
  by simp

section \<open>The attribute lookups of the three entity kinds\<close>

lemma DBC_SIGNAL_findLoop_find:
  "DBC_SIGNAL_findLoop attrs nm i = find (\<lambda>a. compareCI (attrName a) nm) (drop i attrs)"
proof (induction attrs nm i rule: DBC_SIGNAL_findLoop.induct)
  case (1 attrs nm i)
  show ?case
  proof (cases "i < length attrs")
    case True
    then have "drop i attrs = attrs ! i # drop (Suc i) attrs"
      by (simp add: Cons_nth_drop_Suc)
    with True "1.IH" show ?thesis
      by (subst DBC_SIGNAL_findLoop.simps) (simp del: DBC_SIGNAL_findLoop.simps)
  next
    case False
    then show ?thesis
      by (subst DBC_SIGNAL_findLoop.simps) (simp del: DBC_SIGNAL_findLoop.simps)
  qed
qed

lemma DBC_MESSAGE_findLoop_find:
  "DBC_MESSAGE_findLoop attrs nm i = find (\<lambda>a. compareCI (attrName a) nm) (drop i attrs)"
proof (induction attrs nm i rule: DBC_MESSAGE_findLoop.induct)
  case (1 attrs nm i)
  show ?case
  proof (cases "i < length attrs")
    case True
    then have "drop i attrs = attrs ! i # drop (Suc i) attrs"
      by (simp add: Cons_nth_drop_Suc)
    with True "1.IH" show ?thesis
      by (subst DBC_MESSAGE_findLoop.simps) (simp del: DBC_MESSAGE_findLoop.simps)
  next
    case False
    then show ?thesis
      by (subst DBC_MESSAGE_findLoop.simps) (simp del: DBC_MESSAGE_findLoop.simps)
  qed
qed

lemma DBC_NODE_findLoop_find:
  "DBC_NODE_findLoop attrs nm i = find (\<lambda>a. compareCI (attrName a) nm) (drop i attrs)"
proof (induction attrs nm i rule: DBC_NODE_findLoop.induct)
  case (1 attrs nm i)
  show ?case
  proof (cases "i < length attrs")
    case True
    then have "drop i attrs = attrs ! i # drop (Suc i) attrs"
      by (simp add: Cons_nth_drop_Suc)
    with True "1.IH" show ?thesis
      by (subst DBC_NODE_findLoop.simps) (simp del: DBC_NODE_findLoop.simps)
  next
    case False
    then show ?thesis
      by (subst DBC_NODE_findLoop.simps) (simp del: DBC_NODE_findLoop.simps)
  qed
qed

text \<open>
  C9. The lookups of signals, messages and nodes are the same functions of the
  attribute list: by name, each returns the first entry in list order whose name equals
  the argument case-insensitively, and nothing when there is none; by index, each
  returns the entry at \<open>i\<close> exactly when \<open>0 \<le> i < length\<close>, and nothing otherwise.
\<close>

theorem C9_attribute_lookups_agree:
  "DBC_SIGNAL_findAttrValByName s nm = findByName (sig_attributes s) nm \<and>
   DBC_MESSAGE_findAttrValByName m nm = findByName (msg_attributes m) nm \<and>
   DBC_NODE_findAttrValByName n nm = findByName (node_attributes n) nm \<and>
   DBC_SIGNAL_findAttrValByIdx s i = findByIndex (sig_attributes s) i \<and>
   DBC_MESSAGE_findAttrValByIdx m i = findByIndex (msg_attributes m) i \<and>
   DBC_NODE_findAttrValByIdx n i = findByIndex (node_attributes n) i"
  by (simp add: DBC_SIGNAL_findAttrValByName_def DBC_MESSAGE_findAttrValByName_def
      DBC_NODE_findAttrValByName_def DBC_SIGNAL_findAttrValByIdx_def
      DBC_MESSAGE_findAttrValByIdx_def DBC_NODE_findAttrValByIdx_def
      findByName_def findByIndex_def
      DBC_SIGNAL_findLoop_find DBC_MESSAGE_findLoop_find DBC_NODE_findLoop_find
      del: DBC_SIGNAL_findLoop.simps DBC_MESSAGE_findLoop.simps DBC_NODE_findLoop.simps)

text \<open>What the lookup of the specification returns, by the first match.\<close>

lemma findByName_first_match:
  "findByName attrs nm = Some a \<longleftrightarrow>
   (\<exists>i < length attrs. compareCI (attrName (attrs ! i)) nm \<and> a = attrs ! i \<and>
      (\<forall>j < i. \<not> compareCI (attrName (attrs ! j)) nm))"
  by (simp add: findByName_def find_Some_iff)

lemma findByName_no_match:
  "findByName attrs nm = None \<longleftrightarrow> (\<forall>a \<in> set attrs. \<not> compareCI (attrName a) nm)"
  by (auto simp: findByName_def find_None_iff)

lemma attrs3_lookup:
  "findByName attrs3 ''comment'' = Some \<lparr>attrName = ''Comment'', attrValue = ()\<rparr> \<and>
   findByName attrs3 ''BusType'' = None \<and>
   findByIndex attrs3 2 = Some \<lparr>attrName = ''COMMENT'', attrValue = ()\<rparr> \<and>
   findByIndex attrs3 3 = None \<and> findByIndex attrs3 (- 1) = None"
  by code_simp

theorem C9_attribute_lookups_agree_witness:
  "DBC_SIGNAL_findAttrValByName (sigM\<lparr>sig_attributes := attrs3\<rparr>) ''comment'' =
     Some \<lparr>attrName = ''Comment'', attrValue = ()\<rparr> \<and>
   DBC_MESSAGE_findAttrValByName (msg0\<lparr>msg_attributes := attrs3\<rparr>) ''comment'' =
     Some \<lparr>attrName = ''Comment'', attrValue = ()\<rparr> \<and>
   DBC_NODE_findAttrValByName \<lparr>node_attributes = attrs3\<rparr> ''comment'' =
     Some \<lparr>attrName = ''Comment'', attrValue = ()\<rparr> \<and>
   DBC_SIGNAL_findAttrValByIdx (sigM\<lparr>sig_attributes := attrs3\<rparr>) 2 =
     Some \<lparr>attrName = ''COMMENT'', attrValue = ()\<rparr> \<and>
   DBC_MESSAGE_findAttrValByIdx (msg0\<lparr>msg_attributes := attrs3\<rparr>) 3 = None \<and>
   DBC_NODE_findAttrValByIdx \<lparr>node_attributes = attrs3\<rparr> (- 1) = None"
  using C9_attribute_lookups_agree
      [of "sigM\<lparr>sig_attributes := attrs3\<rparr>" "''comment''" "msg0\<lparr>msg_attributes := attrs3\<rparr>"
        "\<lparr>node_attributes = attrs3\<rparr>" 2]
    C9_attribute_lookups_agree
      [of "sigM\<lparr>sig_attributes := attrs3\<rparr>" "''comment''" "msg0\<lparr>msg_attributes := attrs3\<rparr>"
        "\<lparr>node_attributes = attrs3\<rparr>" 3]
    C9_attribute_lookups_agree
      [of "sigM\<lparr>sig_attributes := attrs3\<rparr>" "''comment''" "msg0\<lparr>msg_attributes := attrs3\<rparr>"
        "\<lparr>node_attributes = attrs3\<rparr>" "- 1"]
    attrs3_lookup
  by (simp del: DBC_SIGNAL_findLoop.simps DBC_MESSAGE_findLoop.simps DBC_NODE_findLoop.simps)

end
